theory Spec2Isabelle
  imports Main "HOL-Library.Sublist"
begin

section \<open>Values of the Python program\<close>

text \<open>
  \<^verbatim>\<open>dashboard.py\<close> works on what \<^verbatim>\<open>json.loads\<close> returns: \<^verbatim>\<open>None\<close>, booleans,
  integers, strings, lists and dictionaries. A dictionary is an association list read
  with \<^const>\<open>map_of\<close>, its keys in insertion order, each key once; the view records
  the collectors build are dictionaries too, as in the source. Numbers are integers here
  (floats are not modelled), and a string is a list of \<^typ>\<open>char\<close>, one per
  character of the Python string; the characters modelled are the code points up to
  U+00FF.
\<close>

datatype json =
    JNull
  | JBool bool
  | JInt int
  | JStr string
  | JList "json list"
  | JObj "(string \<times> json) list"

text \<open>The exceptions that the collectors and the renderer can raise on such values.\<close>

datatype pyerr = AttributeError | TypeError | KeyError | IndexError

text \<open>Sequencing of statements that may raise: the first exception ends the function.\<close>

definition and_then :: "pyerr + 'a \<Rightarrow> ('a \<Rightarrow> pyerr + 'b) \<Rightarrow> pyerr + 'b" where
  "and_then m f = (case m of Inl e \<Rightarrow> Inl e | Inr x \<Rightarrow> f x)"

text \<open>
  \<^verbatim>\<open>for x in xs: ...; out.append(...)\<close>: the body returns what this iteration appends
  (nothing after \<^verbatim>\<open>continue\<close> or a failed guard), the loop returns everything
  appended, in order, and an exception in any iteration leaves the loop.
\<close>

fun for_each :: "('a \<Rightarrow> pyerr + 'b list) \<Rightarrow> 'a list \<Rightarrow> pyerr + 'b list" where
  "for_each body [] = Inr []"
| "for_each body (x # xs) =
     and_then (body x) (\<lambda>ys. and_then (for_each body xs) (\<lambda>zs. Inr (ys @ zs)))"

text \<open>Truth value of a value, as \<^verbatim>\<open>if v\<close>, \<^verbatim>\<open>not v\<close> and \<^verbatim>\<open>v or w\<close> take it.\<close>

fun py_truthy :: "json \<Rightarrow> bool" where
  "py_truthy JNull = False"
| "py_truthy (JBool b) = b"
| "py_truthy (JInt i) = (i \<noteq> 0)"
| "py_truthy (JStr s) = (s \<noteq> [])"
| "py_truthy (JList xs) = (xs \<noteq> [])"
| "py_truthy (JObj kvs) = (kvs \<noteq> [])"

text \<open>\<^verbatim>\<open>v or w\<close>.\<close>

definition py_or :: "json \<Rightarrow> json \<Rightarrow> json" where
  "py_or v w = (if py_truthy v then v else w)"

text \<open>\<^verbatim>\<open>v.get(k, d)\<close>: only a dictionary has the method.\<close>

fun py_get :: "json \<Rightarrow> string \<Rightarrow> json \<Rightarrow> pyerr + json" where
  "py_get (JObj kvs) k d = Inr (case map_of kvs k of None \<Rightarrow> d | Some v \<Rightarrow> v)"
| "py_get _ k d = Inl AttributeError"

text \<open>\<^verbatim>\<open>v[k]\<close> with a string \<^verbatim>\<open>k\<close>: a missing key raises, and so does any other value.\<close>

fun py_subscript :: "json \<Rightarrow> string \<Rightarrow> pyerr + json" where
  "py_subscript (JObj kvs) k = (case map_of kvs k of None \<Rightarrow> Inl KeyError | Some v \<Rightarrow> Inr v)"
| "py_subscript _ k = Inl TypeError"

text \<open>\<^verbatim>\<open>v[0]\<close>. The keys of a parsed JSON object are strings, so \<^verbatim>\<open>0\<close> is never one.\<close>

fun py_index0 :: "json \<Rightarrow> pyerr + json" where
  "py_index0 (JList xs) = (case xs of [] \<Rightarrow> Inl IndexError | x # _ \<Rightarrow> Inr x)"
| "py_index0 (JStr s) = (case s of [] \<Rightarrow> Inl IndexError | c # _ \<Rightarrow> Inr (JStr [c]))"
| "py_index0 (JObj kvs) = Inl KeyError"
| "py_index0 _ = Inl TypeError"

text \<open>
  \<^verbatim>\<open>k in v\<close> with a string \<^verbatim>\<open>k\<close>: a key of a dictionary, an element of a list, a
  substring of a string.
\<close>

fun py_contains :: "string \<Rightarrow> json \<Rightarrow> pyerr + bool" where
  "py_contains k (JObj kvs) = Inr (map_of kvs k \<noteq> None)"
| "py_contains k (JList xs) = Inr (List.member xs (JStr k))"
| "py_contains k (JStr s) = Inr (sublist k s)"
| "py_contains k _ = Inl TypeError"

text \<open>
  \<^verbatim>\<open>for x in v\<close>: the elements of a list, the characters of a string, the keys of a
  dictionary.
\<close>

fun py_iter :: "json \<Rightarrow> pyerr + json list" where
  "py_iter (JList xs) = Inr xs"
| "py_iter (JStr s) = Inr (map (\<lambda>c. JStr [c]) s)"
| "py_iter (JObj kvs) = Inr (map (\<lambda>kv. JStr (fst kv)) kvs)"
| "py_iter _ = Inl TypeError"

text \<open>
  \<^verbatim>\<open>v[:n]\<close>. Slicing a dictionary raises (\<^verbatim>\<open>TypeError\<close> for an unhashable slice;
  interpreters from 3.12 on raise \<^verbatim>\<open>KeyError\<close> there instead).
\<close>

fun py_slice_to :: "nat \<Rightarrow> json \<Rightarrow> pyerr + json" where
  "py_slice_to n (JStr s) = Inr (JStr (take n s))"
| "py_slice_to n (JList xs) = Inr (JList (take n xs))"
| "py_slice_to n _ = Inl TypeError"

text \<open>\<^verbatim>\<open>v + "..."\<close> with a string on the right.\<close>

fun py_add_str :: "json \<Rightarrow> string \<Rightarrow> pyerr + json" where
  "py_add_str (JStr s) t = Inr (JStr (s @ t))"
| "py_add_str _ t = Inl TypeError"

text \<open>Decimal digits of a number, for \<^verbatim>\<open>str\<close> of an integer.\<close>

definition digit_char :: "nat \<Rightarrow> char" where
  "digit_char d =
     (if d = 0 then CHR ''0'' else if d = 1 then CHR ''1'' else if d = 2 then CHR ''2''
      else if d = 3 then CHR ''3'' else if d = 4 then CHR ''4'' else if d = 5 then CHR ''5''
      else if d = 6 then CHR ''6'' else if d = 7 then CHR ''7'' else if d = 8 then CHR ''8''
      else CHR ''9'')"

function str_nat :: "nat \<Rightarrow> string" where
  "str_nat n = (if n < 10 then [digit_char n] else str_nat (n div 10) @ [digit_char (n mod 10)])"
  by pat_completeness auto
termination
  by (relation "measure (\<lambda>n. n)") auto

definition str_int :: "int \<Rightarrow> string" where
  "str_int i = (if i < 0 then CHR ''-'' # str_nat (nat (- i)) else str_nat (nat i))"

text \<open>
  \<^verbatim>\<open>str(v)\<close>, which an f-string applies to a value without a format specification.
  The text of a list or a dictionary is Python's \<^verbatim>\<open>repr\<close>, which is not modelled: it
  is the parameter \<open>repr\<close>.
\<close>

fun py_str :: "(json \<Rightarrow> string) \<Rightarrow> json \<Rightarrow> string" where
  "py_str repr JNull = ''None''"
| "py_str repr (JBool b) = (if b then ''True'' else ''False'')"
| "py_str repr (JInt i) = str_int i"
| "py_str repr (JStr s) = s"
| "py_str repr v = repr v"

text \<open>
  \<^verbatim>\<open>f"{v:<n}"\<close>: left-justified in a field of width \<open>n\<close>, never cut. A boolean is
  formatted as the integer it is; \<^verbatim>\<open>None\<close>, lists and dictionaries refuse a format
  specification.
\<close>

definition ljust :: "nat \<Rightarrow> string \<Rightarrow> string" where
  "ljust n s = s @ replicate (n - length s) CHR '' ''"

fun py_format_ljust :: "nat \<Rightarrow> json \<Rightarrow> pyerr + string" where
  "py_format_ljust n (JStr s) = Inr (ljust n s)"
| "py_format_ljust n (JInt i) = Inr (ljust n (str_int i))"
| "py_format_ljust n (JBool b) = Inr (ljust n (if b then ''1'' else ''0''))"
| "py_format_ljust n _ = Inl TypeError"

section \<open>The command runner\<close>

text \<open>
  What the program takes from outside: the mode flag \<^verbatim>\<open>USE_AWS\<close>, the external
  process behind \<^verbatim>\<open>subprocess.run\<close> (\<open>None\<close> when the call raises: a timeout, a
  missing executable, an argument that is not a string), the parser \<^verbatim>\<open>json.loads\<close>
  (\<open>None\<close> when it raises) and \<^verbatim>\<open>repr\<close> of lists and dictionaries. The backend is
  a snapshot: the reply to a command depends on the command only.
\<close>

record completed_process =
  returncode :: int
  stdout :: string

record runtime =
  USE_AWS :: bool
  subprocess_run :: "json list \<Rightarrow> completed_process option"
  json_loads :: "string \<Rightarrow> json option"
  py_repr :: "json \<Rightarrow> string"

definition LOCALSTACK_ENDPOINT :: string where
  "LOCALSTACK_ENDPOINT = ''http://localhost:4566''"

text \<open>
  The list \<^verbatim>\<open>cmd\<close>, and the call. An absent or empty \<^verbatim>\<open>extra_args\<close> adds nothing.
  \<open>None\<close> is the Python \<^verbatim>\<open>None\<close> that the function returns for every failure. It
  also returns \<^verbatim>\<open>None\<close> when the process prints the JSON text \<^verbatim>\<open>null\<close>, which
  \<^verbatim>\<open>json.loads\<close> parses to \<^verbatim>\<open>None\<close>: a caller cannot tell the two apart.
\<close>

definition command_line :: "runtime \<Rightarrow> string \<Rightarrow> string \<Rightarrow> json list option \<Rightarrow> json list" where
  "command_line rt service action extra_args =
     [JStr ''aws'']
     @ (if \<not> USE_AWS rt then [JStr ''--endpoint-url'', JStr LOCALSTACK_ENDPOINT] else [])
     @ [JStr service, JStr action, JStr ''--output'', JStr ''json'']
     @ (case extra_args of None \<Rightarrow> [] | Some args \<Rightarrow> args)"

definition run_aws_command ::
  "runtime \<Rightarrow> string \<Rightarrow> string \<Rightarrow> json list option \<Rightarrow> json option" where
  "run_aws_command rt service action extra_args =
     (case subprocess_run rt (command_line rt service action extra_args) of
        None \<Rightarrow> None
      | Some result \<Rightarrow>
          if returncode result = 0
          then (if stdout result \<noteq> []
                then (case json_loads rt (stdout result) of
                        None \<Rightarrow> None
                      | Some JNull \<Rightarrow> None
                      | Some parsed \<Rightarrow> Some parsed)
                else Some (JObj []))
          else None)"

section \<open>The collectors\<close>

subsection \<open>Buckets\<close>

definition s3_bucket_body :: "runtime \<Rightarrow> json \<Rightarrow> pyerr + json list" where
  "s3_bucket_body rt bucket =
     and_then (py_get bucket ''Name'' (JStr '''')) (\<lambda>name.
     and_then (case run_aws_command rt ''s3api'' ''get-bucket-versioning''
                      (Some [JStr ''--bucket'', name]) of
                 None \<Rightarrow> Inr (JStr ''Unknown'')
               | Some versioning \<Rightarrow>
                   if py_truthy versioning then py_get versioning ''Status'' (JStr ''Disabled'')
                   else Inr (JStr ''Unknown'')) (\<lambda>versioning_status.
     and_then (py_get bucket ''CreationDate'' (JStr '''')) (\<lambda>created.
     Inr [JObj [(''name'', name), (''created'', created),
                (''versioning'', versioning_status)]])))"

definition get_s3_buckets :: "runtime \<Rightarrow> pyerr + json list" where
  "get_s3_buckets rt =
     (case run_aws_command rt ''s3api'' ''list-buckets'' None of
        None \<Rightarrow> Inr []
      | Some data \<Rightarrow>
          if \<not> py_truthy data then Inr []
          else and_then (py_get data ''Buckets'' (JList [])) (\<lambda>bs.
               and_then (py_iter bs) (for_each (s3_bucket_body rt))))"

subsection \<open>Tables\<close>

text \<open>The loop over \<^verbatim>\<open>KeySchema\<close>: it assigns \<^verbatim>\<open>hash_key\<close> and has no \<^verbatim>\<open>break\<close>.\<close>

fun hash_key_loop :: "json \<Rightarrow> json list \<Rightarrow> pyerr + json" where
  "hash_key_loop hash_key [] = Inr hash_key"
| "hash_key_loop hash_key (attr # attrs) =
     and_then (py_get attr ''KeyType'' JNull) (\<lambda>key_type.
       if key_type = JStr ''HASH''
       then and_then (py_get attr ''AttributeName'' (JStr '''')) (\<lambda>v. hash_key_loop v attrs)
       else hash_key_loop hash_key attrs)"

definition dynamodb_table_body :: "runtime \<Rightarrow> json \<Rightarrow> pyerr + json list" where
  "dynamodb_table_body rt table_name =
     (case run_aws_command rt ''dynamodb'' ''describe-table''
             (Some [JStr ''--table-name'', table_name]) of
        None \<Rightarrow> Inr []
      | Some details \<Rightarrow>
          if \<not> py_truthy details then Inr []
          else and_then (py_contains ''Table'' details) (\<lambda>present.
            if \<not> present then Inr []
            else and_then (py_subscript details ''Table'') (\<lambda>table.
                 and_then (py_get table ''KeySchema'' (JList [])) (\<lambda>key_schema.
                 and_then (py_iter key_schema) (\<lambda>attrs.
                 and_then (hash_key_loop (JStr '''') attrs) (\<lambda>hash_key.
                 and_then (py_get table ''TableStatus'' (JStr ''UNKNOWN'')) (\<lambda>status.
                 and_then (py_get table ''ItemCount'' (JInt 0)) (\<lambda>item_count.
                 Inr [JObj [(''name'', table_name), (''hash_key'', hash_key),
                            (''status'', status), (''item_count'', item_count)]]))))))))"

definition get_dynamodb_tables :: "runtime \<Rightarrow> pyerr + json list" where
  "get_dynamodb_tables rt =
     (case run_aws_command rt ''dynamodb'' ''list-tables'' None of
        None \<Rightarrow> Inr []
      | Some data \<Rightarrow>
          if \<not> py_truthy data then Inr []
          else and_then (py_get data ''TableNames'' (JList [])) (\<lambda>names.
               and_then (py_iter names) (for_each (dynamodb_table_body rt))))"

subsection \<open>Users\<close>

definition access_key_body :: "json \<Rightarrow> pyerr + json list" where
  "access_key_body key =
     and_then (py_get key ''AccessKeyId'' (JStr '''')) (\<lambda>key_id.
     and_then (py_get key ''Status'' (JStr ''Unknown'')) (\<lambda>status.
     Inr [JObj [(''id'', key_id), (''status'', status)]]))"

definition policy_body :: "json \<Rightarrow> pyerr + json list" where
  "policy_body policy = and_then (py_get policy ''PolicyName'' (JStr '''')) (\<lambda>n. Inr [n])"

definition iam_user_body :: "runtime \<Rightarrow> json \<Rightarrow> pyerr + json list" where
  "iam_user_body rt user =
     and_then (py_get user ''UserName'' (JStr '''')) (\<lambda>name.
     and_then (case run_aws_command rt ''iam'' ''list-access-keys''
                      (Some [JStr ''--user-name'', name]) of
                 None \<Rightarrow> Inr []
               | Some keys_data \<Rightarrow>
                   if \<not> py_truthy keys_data then Inr []
                   else and_then (py_get keys_data ''AccessKeyMetadata'' (JList [])) (\<lambda>ks.
                        and_then (py_iter ks) (for_each access_key_body))) (\<lambda>access_keys.
     and_then (case run_aws_command rt ''iam'' ''list-attached-user-policies''
                      (Some [JStr ''--user-name'', name]) of
                 None \<Rightarrow> Inr []
               | Some policies_data \<Rightarrow>
                   if \<not> py_truthy policies_data then Inr []
                   else and_then (py_get policies_data ''AttachedPolicies'' (JList [])) (\<lambda>ps.
                        and_then (py_iter ps) (for_each policy_body))) (\<lambda>policies.
     and_then (py_get user ''Arn'' (JStr '''')) (\<lambda>arn.
     and_then (py_get user ''CreateDate'' (JStr '''')) (\<lambda>created.
     Inr [JObj [(''name'', name), (''arn'', arn), (''created'', created),
                (''access_keys'', JList access_keys), (''policies'', JList policies)]])))))"

definition get_iam_users :: "runtime \<Rightarrow> pyerr + json list" where
  "get_iam_users rt =
     (case run_aws_command rt ''iam'' ''list-users'' None of
        None \<Rightarrow> Inr []
      | Some data \<Rightarrow>
          if \<not> py_truthy data then Inr []
          else and_then (py_get data ''Users'' (JList [])) (\<lambda>us.
               and_then (py_iter us) (for_each (iam_user_body rt))))"

subsection \<open>Key pairs\<close>

definition key_pair_body :: "json \<Rightarrow> pyerr + json list" where
  "key_pair_body key =
     and_then (py_get key ''KeyName'' (JStr '''')) (\<lambda>name.
     and_then (py_get key ''KeyFingerprint'' (JStr '''')) (\<lambda>raw.
     and_then (py_slice_to 40 raw) (\<lambda>cut.
     and_then (py_add_str cut ''...'') (\<lambda>fingerprint.
     and_then (py_get key ''KeyType'' (JStr ''rsa'')) (\<lambda>key_type.
     Inr [JObj [(''name'', name), (''fingerprint'', fingerprint), (''type'', key_type)]])))))"

definition get_key_pairs :: "runtime \<Rightarrow> pyerr + json list" where
  "get_key_pairs rt =
     (case run_aws_command rt ''ec2'' ''describe-key-pairs'' None of
        None \<Rightarrow> Inr []
      | Some data \<Rightarrow>
          if \<not> py_truthy data then Inr []
          else and_then (py_get data ''KeyPairs'' (JList [])) (\<lambda>ks.
               and_then (py_iter ks) (for_each key_pair_body)))"

subsection \<open>Instances\<close>

text \<open>The loop over \<^verbatim>\<open>Tags\<close>: \<^verbatim>\<open>name\<close> starts empty and the first match breaks.\<close>

fun tag_name_loop :: "json list \<Rightarrow> pyerr + json" where
  "tag_name_loop [] = Inr (JStr '''')"
| "tag_name_loop (tag # tags) =
     and_then (py_subscript tag ''Key'') (\<lambda>k.
       if k = JStr ''Name'' then py_subscript tag ''Value'' else tag_name_loop tags)"

definition instance_body :: "json \<Rightarrow> pyerr + json list" where
  "instance_body instance =
     and_then (py_get instance ''Tags'' (JList [])) (\<lambda>tags.
     and_then (py_iter tags) (\<lambda>tag_list.
     and_then (tag_name_loop tag_list) (\<lambda>name.
     and_then (py_get instance ''InstanceId'' (JStr '''')) (\<lambda>instance_id.
     and_then (py_get instance ''InstanceType'' (JStr '''')) (\<lambda>instance_type.
     and_then (py_get instance ''State'' (JObj [])) (\<lambda>state_obj.
     and_then (py_get state_obj ''Name'' (JStr ''unknown'')) (\<lambda>state.
     and_then (py_get instance ''PublicIpAddress'' (JStr '''')) (\<lambda>public_ip.
     and_then (py_get instance ''PrivateIpAddress'' (JStr '''')) (\<lambda>private_ip.
     and_then (py_get instance ''KeyName'' (JStr '''')) (\<lambda>key_name.
     Inr [JObj [(''id'', instance_id), (''name'', py_or name (JStr ''(unnamed)'')),
                (''type'', instance_type), (''state'', state),
                (''public_ip'', public_ip), (''private_ip'', private_ip),
                (''key_name'', key_name)]]))))))))))"

definition reservation_body :: "json \<Rightarrow> pyerr + json list" where
  "reservation_body reservation =
     and_then (py_get reservation ''Instances'' (JList [])) (\<lambda>is.
     and_then (py_iter is) (for_each instance_body))"

definition get_instances :: "runtime \<Rightarrow> pyerr + json list" where
  "get_instances rt =
     (case run_aws_command rt ''ec2'' ''describe-instances'' None of
        None \<Rightarrow> Inr []
      | Some data \<Rightarrow>
          if \<not> py_truthy data then Inr []
          else and_then (py_get data ''Reservations'' (JList [])) (\<lambda>rs.
               and_then (py_iter rs) (for_each reservation_body)))"

subsection \<open>Security groups\<close>

definition ingress_rule_body :: "runtime \<Rightarrow> json \<Rightarrow> pyerr + json list" where
  "ingress_rule_body rt rule =
     and_then (py_get rule ''FromPort'' (JStr ''all'')) (\<lambda>port.
     and_then (py_get rule ''IpRanges'' JNull) (\<lambda>ranges.
     and_then (if py_truthy ranges
               then and_then (py_get rule ''IpRanges'' (JList [JObj []])) (\<lambda>rs.
                    and_then (py_index0 rs) (\<lambda>first. py_get first ''CidrIp'' (JStr '''')))
               else Inr (JStr '''')) (\<lambda>cidr.
     Inr [JStr (py_str (py_repr rt) port @ '' from ''
                @ py_str (py_repr rt) (py_or cidr (JStr ''any'')))])))"

definition security_group_body :: "runtime \<Rightarrow> json \<Rightarrow> pyerr + json list" where
  "security_group_body rt sg =
     and_then (py_get sg ''GroupName'' JNull) (\<lambda>group_name.
       if group_name = JStr ''default'' then Inr []
       else and_then (py_get sg ''IpPermissions'' (JList [])) (\<lambda>perms.
            and_then (py_iter perms) (\<lambda>rules.
            and_then (for_each (ingress_rule_body rt) rules) (\<lambda>ingress_rules.
            and_then (py_get sg ''GroupId'' (JStr '''')) (\<lambda>group_id.
            and_then (py_get sg ''GroupName'' (JStr '''')) (\<lambda>name.
            and_then (py_get sg ''Description'' (JStr '''')) (\<lambda>description.
            Inr [JObj [(''id'', group_id), (''name'', name), (''description'', description),
                       (''ingress_rules'', JList ingress_rules)]])))))))"

definition get_security_groups :: "runtime \<Rightarrow> pyerr + json list" where
  "get_security_groups rt =
     (case run_aws_command rt ''ec2'' ''describe-security-groups'' None of
        None \<Rightarrow> Inr []
      | Some data \<Rightarrow>
          if \<not> py_truthy data then Inr []
          else and_then (py_get data ''SecurityGroups'' (JList [])) (\<lambda>sgs.
               and_then (py_iter sgs) (for_each (security_group_body rt))))"

section \<open>The renderer\<close>

text \<open>
  \<^verbatim>\<open>generate_html\<close> appends blocks of text to \<^verbatim>\<open>html\<close>. The blocks that depend
  on the collected views are modelled: the architecture diagram and, for each of the six
  sections, the cards or the empty-state message between the section's fixed header and
  footer. A template is given as its lines, each ended by a newline.
\<close>

definition lines_text :: "string list \<Rightarrow> string" where
  "lines_text ls = concat (map (\<lambda>l. l @ [CHR 0x0A]) ls)"

text \<open>
  \<^verbatim>\<open>v.lower()\<close>, a method of strings only. A \<^typ>\<open>char\<close> stands for a code point up
  to U+00FF; of these Python lowers \<^verbatim>\<open>A\<close> to \<^verbatim>\<open>Z\<close> and the letters U+00C0 to
  U+00DE (U+00D7, the multiplication sign, is no letter), each to the code point 32
  above it.
\<close>

definition lower_char :: "char \<Rightarrow> char" where
  "lower_char c =
     (let n = (of_char c :: nat)
      in if (65 \<le> n \<and> n \<le> 90) \<or> (192 \<le> n \<and> n \<le> 222 \<and> n \<noteq> 215)
         then char_of (n + 32) else c)"

fun py_lower :: "json \<Rightarrow> pyerr + string" where
  "py_lower (JStr s) = Inr (map lower_char s)"
| "py_lower _ = Inl AttributeError"

text \<open>\<^verbatim>\<open>sep.join(v)\<close>: every item has to be a string.\<close>

fun str_items :: "json list \<Rightarrow> pyerr + string list" where
  "str_items [] = Inr []"
| "str_items (JStr s # xs) = and_then (str_items xs) (\<lambda>ss. Inr (s # ss))"
| "str_items (_ # xs) = Inl TypeError"

fun join :: "string \<Rightarrow> string list \<Rightarrow> string" where
  "join sep [] = []"
| "join sep [s] = s"
| "join sep (s # ss) = s @ sep @ join sep ss"

definition py_join :: "string \<Rightarrow> json \<Rightarrow> pyerr + string" where
  "py_join sep v = and_then (py_iter v) (\<lambda>xs. and_then (str_items xs) (\<lambda>ss. Inr (join sep ss)))"

subsection \<open>The architecture diagram\<close>

definition architecture_text :: "string \<Rightarrow> string \<Rightarrow> string \<Rightarrow> string" where
  \<open>architecture_text b t i = lines_text [
    '''',
    ''    <div class="architecture">'',
    ''                    TERRAFORM REMOTE STATE ARCHITECTURE'',
    ''                    ==================================='',
    '''',
    ''    +----------------------+          +----------------------+'',
    ''    |   Your Computer      |          |   AWS / LocalStack   |'',
    ''    |                      |          |                      |'',
    ''    |  terraform apply ----+--------->|  S3 Bucket           |'',
    ''    |                      |          |  '' @ b @ '' |'',
    ''    |  Stores state in S3  |          |  (State Storage)     |'',
    ''    |                      |          +----------------------+'',
    ''    |                      |                    |'',
    ''    |                      |          +----------------------+'',
    ''    |  Acquires lock ----->|--------->|  DynamoDB Table      |'',
    ''    |                      |          |  '' @ t @ ''|'',
    ''    |  (Before changes)    |          |  (State Locking)     |'',
    ''    |                      |          +----------------------+'',
    ''    +----------------------+'',
    ''                                      +----------------------+'',
    ''                                      |  IAM User + Keys     |'',
    ''                                      |  (Access Credentials)|'',
    ''                                      +----------------------+'',
    ''                                               |'',
    ''                                      +--------v-------------+'',
    ''                                      |  '' @ i @ ''|'',
    ''                                      |  + SSH Key Pair      |'',
    ''                                      |  + Security Group    |'',
    ''                                      +----------------------+'',
    ''    </div>'']\<close>

text \<open>
  The text that the block under \<^verbatim>\<open># Architecture diagram\<close> appends: nothing when the
  three lists are empty.
\<close>

definition architecture_diagram ::
  "(json \<Rightarrow> string) \<Rightarrow> json list \<Rightarrow> json list \<Rightarrow> json list \<Rightarrow> pyerr + string" where
  "architecture_diagram repr s3_buckets dynamodb_tables instances =
     (if s3_buckets \<noteq> [] \<or> dynamodb_tables \<noteq> [] \<or> instances \<noteq> [] then
        and_then (case s3_buckets of
                    [] \<Rightarrow> Inr (JStr ''terraform-state-bucket'')
                  | bucket # _ \<Rightarrow> and_then (py_subscript bucket ''name'') (py_slice_to 30))
          (\<lambda>bucket_name.
        and_then (case dynamodb_tables of
                    [] \<Rightarrow> Inr (JStr ''terraform-locks'')
                  | table # _ \<Rightarrow> and_then (py_subscript table ''name'') (py_slice_to 25))
          (\<lambda>table_name.
        and_then (case instances of
                    [] \<Rightarrow> Inr (JStr ''EC2: (not created yet)'')
                  | instance # _ \<Rightarrow>
                      and_then (py_subscript instance ''name'') (\<lambda>name.
                      and_then (py_slice_to 20 name) (\<lambda>cut.
                      Inr (JStr (''EC2: '' @ py_str repr cut)))))
          (\<lambda>instance_info.
        and_then (py_format_ljust 30 bucket_name) (\<lambda>b.
        and_then (py_format_ljust 25 table_name) (\<lambda>t.
        and_then (py_format_ljust 20 instance_info) (\<lambda>i.
        Inr (architecture_text b t i)))))))
      else Inr [])"

subsection \<open>The six sections\<close>

text \<open>
  Each section is an \<^verbatim>\<open>if\<close> on its list: one card per view, or one literal message.
  A card function returns the text one iteration appends, so the loop's result is the
  text of all cards.
\<close>

definition s3_card :: "(json \<Rightarrow> string) \<Rightarrow> json \<Rightarrow> pyerr + string" where
  \<open>s3_card repr bucket =
     and_then (py_subscript bucket ''name'') (\<lambda>name.
     and_then (py_subscript bucket ''versioning'') (\<lambda>versioning.
     and_then (py_lower versioning) (\<lambda>lowered.
     Inr (lines_text [
        '''',
        ''            <div class="resource-card s3">'',
        ''                <h3>'' @ py_str repr name @ ''</h3>'',
        ''                <div class="details">'',
        ''                    <span class="status-'' @ lowered @ ''">Versioning: ''
            @ py_str repr versioning @ ''</span>'',
        ''                </div>'',
        ''            </div>'']))))\<close>

definition s3_section :: "(json \<Rightarrow> string) \<Rightarrow> json list \<Rightarrow> pyerr + string" where
  \<open>s3_section repr s3_buckets =
     (if s3_buckets \<noteq> [] then for_each (s3_card repr) s3_buckets
      else Inr ''<div class="empty-state">No S3 buckets found. Run terraform apply in the backend/ folder!</div>'')\<close>

definition dynamodb_card :: "(json \<Rightarrow> string) \<Rightarrow> json \<Rightarrow> pyerr + string" where
  \<open>dynamodb_card repr table =
     and_then (py_subscript table ''name'') (\<lambda>name.
     and_then (py_subscript table ''hash_key'') (\<lambda>hash_key.
     and_then (py_subscript table ''status'') (\<lambda>status.
     and_then (py_lower status) (\<lambda>lowered.
     Inr (lines_text [
        '''',
        ''            <div class="resource-card dynamodb">'',
        ''                <h3>'' @ py_str repr name @ ''</h3>'',
        ''                <div class="details">'',
        ''                    <span>Hash Key: '' @ py_str repr hash_key @ ''</span>'',
        ''                    <span class="status-'' @ lowered @ ''">'' @ py_str repr status
            @ ''</span>'',
        ''                </div>'',
        ''            </div>''])))))\<close>

definition dynamodb_section :: "(json \<Rightarrow> string) \<Rightarrow> json list \<Rightarrow> pyerr + string" where
  \<open>dynamodb_section repr dynamodb_tables =
     (if dynamodb_tables \<noteq> [] then for_each (dynamodb_card repr) dynamodb_tables
      else Inr ''<div class="empty-state">No DynamoDB tables found. Run terraform apply in the backend/ folder!</div>'')\<close>

definition access_key_span :: "(json \<Rightarrow> string) \<Rightarrow> json \<Rightarrow> pyerr + string" where
  \<open>access_key_span repr key =
     and_then (py_subscript key ''status'') (\<lambda>status.
     and_then (py_lower status) (\<lambda>lowered.
     and_then (py_subscript key ''id'') (\<lambda>key_id.
     and_then (py_slice_to 16 key_id) (\<lambda>cut.
     Inr (''<span class='' @ [CHR 0x27] @ ''status-'' @ lowered @ [CHR 0x27] @ ''>''
          @ py_str repr cut @ ''...</span> '')))))\<close>

definition iam_card :: "(json \<Rightarrow> string) \<Rightarrow> json \<Rightarrow> pyerr + string" where
  \<open>iam_card repr user =
     and_then (py_subscript user ''access_keys'') (\<lambda>access_keys.
     and_then (py_iter access_keys) (\<lambda>keys.
     and_then (for_each (access_key_span repr) keys) (\<lambda>keys_html.
     and_then (py_subscript user ''policies'') (\<lambda>policies.
     and_then (if py_truthy policies
               then and_then (py_slice_to 3 policies) (py_join '', '')
               else Inr ''None'') (\<lambda>policies_html.
     and_then (py_subscript user ''name'') (\<lambda>name.
     and_then (py_subscript user ''arn'') (\<lambda>arn.
     Inr (lines_text [
        '''',
        ''            <div class="resource-card iam">'',
        ''                <h3>'' @ py_str repr name @ ''</h3>'',
        ''                <div class="id">'' @ py_str repr arn @ ''</div>'',
        ''                <div class="details">'',
        ''                    <div>Access Keys: ''
            @ (if keys_html \<noteq> [] then keys_html else ''None'') @ ''</div>'',
        ''                    <div>Policies: '' @ policies_html @ ''</div>'',
        ''                </div>'',
        ''            </div>'']))))))))\<close>

definition iam_section :: "(json \<Rightarrow> string) \<Rightarrow> json list \<Rightarrow> pyerr + string" where
  \<open>iam_section repr iam_users =
     (if iam_users \<noteq> [] then for_each (iam_card repr) iam_users
      else Inr ''<div class="empty-state">No IAM users found. Run terraform apply in the iam/ folder!</div>'')\<close>

definition keypair_card :: "(json \<Rightarrow> string) \<Rightarrow> json \<Rightarrow> pyerr + string" where
  \<open>keypair_card repr key =
     and_then (py_subscript key ''name'') (\<lambda>name.
     and_then (py_subscript key ''fingerprint'') (\<lambda>fingerprint.
     and_then (py_subscript key ''type'') (\<lambda>key_type.
     Inr (lines_text [
        '''',
        ''            <div class="resource-card keypair">'',
        ''                <h3>'' @ py_str repr name @ ''</h3>'',
        ''                <div class="id">'' @ py_str repr fingerprint @ ''</div>'',
        ''                <div class="details">'',
        ''                    <span>Type: '' @ py_str repr key_type @ ''</span>'',
        ''                </div>'',
        ''            </div>'']))))\<close>

definition keypair_section :: "(json \<Rightarrow> string) \<Rightarrow> json list \<Rightarrow> pyerr + string" where
  \<open>keypair_section repr key_pairs =
     (if key_pairs \<noteq> [] then for_each (keypair_card repr) key_pairs
      else Inr ''<div class="empty-state">No SSH key pairs found. Run terraform apply in the compute/ folder!</div>'')\<close>

definition ec2_card :: "(json \<Rightarrow> string) \<Rightarrow> json \<Rightarrow> pyerr + string" where
  \<open>ec2_card repr instance =
     and_then (py_subscript instance ''name'') (\<lambda>name.
     and_then (py_subscript instance ''id'') (\<lambda>instance_id.
     and_then (py_subscript instance ''type'') (\<lambda>instance_type.
     and_then (py_subscript instance ''state'') (\<lambda>state.
     and_then (py_subscript instance ''public_ip'') (\<lambda>public_ip.
     and_then (if py_truthy public_ip then Inr public_ip
               else and_then (py_subscript instance ''private_ip'') (\<lambda>private_ip.
                    Inr (py_or private_ip (JStr ''N/A'')))) (\<lambda>ip.
     and_then (py_subscript instance ''key_name'') (\<lambda>key_name.
     Inr (lines_text [
        '''',
        ''            <div class="resource-card ec2">'',
        ''                <h3>'' @ py_str repr name @ ''</h3>'',
        ''                <div class="id">'' @ py_str repr instance_id @ ''</div>'',
        ''                <div class="details">'',
        ''                    <span>'' @ py_str repr instance_type @ ''</span>'',
        ''                    <span class="status-'' @ py_str repr state @ ''">''
            @ py_str repr state @ ''</span>'',
        ''                    <span>IP: '' @ py_str repr ip @ ''</span>'',
        ''                    <span>Key: '' @ py_str repr key_name @ ''</span>'',
        ''                </div>'',
        ''            </div>'']))))))))\<close>

definition ec2_section :: "(json \<Rightarrow> string) \<Rightarrow> json list \<Rightarrow> pyerr + string" where
  \<open>ec2_section repr instances =
     (if instances \<noteq> [] then for_each (ec2_card repr) instances
      else Inr ''<div class="empty-state">No EC2 instances found. Run terraform apply in the compute/ folder!</div>'')\<close>

definition sg_card :: "(json \<Rightarrow> string) \<Rightarrow> json \<Rightarrow> pyerr + string" where
  \<open>sg_card repr sg =
     and_then (py_subscript sg ''ingress_rules'') (\<lambda>ingress_rules.
     and_then (if py_truthy ingress_rules
               then and_then (py_slice_to 3 ingress_rules) (py_join ''<br>'')
               else Inr ''No inbound rules'') (\<lambda>rules_html.
     and_then (py_subscript sg ''name'') (\<lambda>name.
     and_then (py_subscript sg ''id'') (\<lambda>group_id.
     Inr (lines_text [
        '''',
        ''            <div class="resource-card sg">'',
        ''                <h3>'' @ py_str repr name @ ''</h3>'',
        ''                <div class="id">'' @ py_str repr group_id @ ''</div>'',
        ''                <div class="details">'',
        ''                    <div>'' @ rules_html @ ''</div>'',
        ''                </div>'',
        ''            </div>''])))))\<close>

definition sg_section :: "(json \<Rightarrow> string) \<Rightarrow> json list \<Rightarrow> pyerr + string" where
  \<open>sg_section repr security_groups =
     (if security_groups \<noteq> [] then for_each (sg_card repr) security_groups
      else Inr ''<div class="empty-state">No security groups found (besides default)</div>'')\<close>

section \<open>Vocabulary of the properties\<close>

text \<open>
  The properties speak of well-formed replies: objects, and the value of a field of an
  object with the default that the collector gives \<^verbatim>\<open>get\<close>.
\<close>

fun is_obj :: "json \<Rightarrow> bool" where
  "is_obj (JObj kvs) = True"
| "is_obj _ = False"

fun field :: "json \<Rightarrow> string \<Rightarrow> json \<Rightarrow> json" where
  "field (JObj kvs) k d = (case map_of kvs k of None \<Rightarrow> d | Some v \<Rightarrow> v)"
| "field _ k d = d"

fun has_field :: "json \<Rightarrow> string \<Rightarrow> bool" where
  "has_field (JObj kvs) k = (map_of kvs k \<noteq> None)"
| "has_field _ k = False"

text \<open>The elements of a field that holds a list.\<close>

definition items :: "json \<Rightarrow> string \<Rightarrow> json list" where
  "items v k = (case field v k (JList []) of JList xs \<Rightarrow> xs | _ \<Rightarrow> [])"

text \<open>A reply that is unavailable or an object.\<close>

definition unavailable_or_obj :: "json option \<Rightarrow> bool" where
  "unavailable_or_obj r = (case r of None \<Rightarrow> True | Some v \<Rightarrow> is_obj v)"

text \<open>A reply that is unavailable or an object whose field \<open>k\<close>, if present, lists objects.\<close>

definition listing_ok :: "string \<Rightarrow> json option \<Rightarrow> bool" where
  "listing_ok k r =
     (case r of
        None \<Rightarrow> True
      | Some v \<Rightarrow>
          is_obj v \<and> (case field v k (JList []) of JList xs \<Rightarrow> list_all is_obj xs | _ \<Rightarrow> False))"

text \<open>
  Following the specification: the hash key of a key schema is the \<^verbatim>\<open>AttributeName\<close>
  of the last entry whose \<^verbatim>\<open>KeyType\<close> is \<^verbatim>\<open>HASH\<close>, and the empty string when there
  is none.
\<close>

definition is_hash :: "json \<Rightarrow> bool" where
  "is_hash attr = (field attr ''KeyType'' JNull = JStr ''HASH'')"

definition last_hash_key :: "json list \<Rightarrow> json" where
  "last_hash_key attrs =
     (if filter is_hash attrs = [] then JStr ''''
      else field (last (filter is_hash attrs)) ''AttributeName'' (JStr ''''))"

text \<open>
  A reply to \<^verbatim>\<open>describe-table\<close> that is unavailable or an object whose \<^verbatim>\<open>Table\<close>,
  if present, is an object with a key schema that lists objects.
\<close>

definition table_ok :: "json \<Rightarrow> bool" where
  "table_ok t =
     (is_obj t \<and> (case field t ''KeySchema'' (JList []) of
                    JList attrs \<Rightarrow> list_all is_obj attrs | _ \<Rightarrow> False))"

definition describe_ok :: "json option \<Rightarrow> bool" where
  "describe_ok r =
     (case r of
        None \<Rightarrow> True
      | Some d \<Rightarrow> is_obj d \<and> (if has_field d ''Table'' then table_ok (field d ''Table'' JNull)
                              else True))"

text \<open>String values and their characters.\<close>

fun is_str :: "json \<Rightarrow> bool" where
  "is_str (JStr s) = True"
| "is_str _ = False"

fun str_of :: "json \<Rightarrow> string" where
  "str_of (JStr s) = s"
| "str_of _ = []"

text \<open>A key pair of a reply: an object whose fingerprint, if present, is a string.\<close>

definition key_ok :: "json \<Rightarrow> bool" where
  "key_ok key = (is_obj key \<and> is_str (field key ''KeyFingerprint'' (JStr '''')))"

text \<open>
  Following the specification: an ingress rule is summarised as
  \<^verbatim>\<open>"<port> from <cidr-or-'any'>"\<close>, with the first CIDR range of the rule only,
  \<^verbatim>\<open>all\<close> for the port when \<^verbatim>\<open>FromPort\<close> is absent and \<^verbatim>\<open>any\<close> when no CIDR is
  present.
\<close>

definition first_cidr :: "json \<Rightarrow> json" where
  "first_cidr rule =
     (case field rule ''IpRanges'' JNull of
        JList (r # _) \<Rightarrow> field r ''CidrIp'' (JStr '''')
      | _ \<Rightarrow> JStr '''')"

definition rule_summary :: "(json \<Rightarrow> string) \<Rightarrow> json \<Rightarrow> string" where
  "rule_summary repr rule =
     py_str repr (field rule ''FromPort'' (JStr ''all'')) @ '' from '' @
     (if py_truthy (first_cidr rule) then py_str repr (first_cidr rule) else ''any'')"

text \<open>
  An ingress rule of a reply: an object whose \<^verbatim>\<open>IpRanges\<close> is absent, empty, or a list
  that starts with an object. A group of a reply: an object whose rules, unless the group
  is the default one, are such rules.
\<close>

definition rule_ok :: "json \<Rightarrow> bool" where
  "rule_ok rule =
     (is_obj rule \<and>
      (case field rule ''IpRanges'' JNull of
         JList (r # _) \<Rightarrow> is_obj r
       | v \<Rightarrow> \<not> py_truthy v))"

definition is_default :: "json \<Rightarrow> bool" where
  "is_default sg = (field sg ''GroupName'' JNull = JStr ''default'')"

definition group_ok :: "json \<Rightarrow> bool" where
  "group_ok sg =
     (is_obj sg \<and>
      (if is_default sg then True
       else case field sg ''IpPermissions'' (JList []) of
              JList rules \<Rightarrow> list_all rule_ok rules | _ \<Rightarrow> False))"

text \<open>
  A tag of an instance: an object with a \<^verbatim>\<open>Key\<close>, and with a \<^verbatim>\<open>Value\<close> when the key
  is \<^verbatim>\<open>Name\<close>. An instance of a reply: an object whose tags are such tags and whose
  \<^verbatim>\<open>State\<close>, if present, is an object.
\<close>

definition is_name_tag :: "json \<Rightarrow> bool" where
  "is_name_tag tag = (field tag ''Key'' JNull = JStr ''Name'')"

definition tag_ok :: "json \<Rightarrow> bool" where
  "tag_ok tag =
     (has_field tag ''Key'' \<and> (if is_name_tag tag then has_field tag ''Value'' else True))"

definition instance_ok :: "json \<Rightarrow> bool" where
  "instance_ok instance =
     (is_obj instance \<and>
      (case field instance ''Tags'' (JList []) of
         JList tags \<Rightarrow> list_all tag_ok tags | _ \<Rightarrow> False) \<and>
      is_obj (field instance ''State'' (JObj [])))"

text \<open>
  The tags that the loop over \<^verbatim>\<open>Tags\<close> reads: those up to and including the first one
  whose key is \<^verbatim>\<open>Name\<close>. An instance is readable when the tags read are tags as above
  and its \<^verbatim>\<open>State\<close>, if present, is an object; a reservation is readable when it is
  an object whose instances, if present, are a list of readable instances.
\<close>

fun tags_read :: "json list \<Rightarrow> json list" where
  "tags_read [] = []"
| "tags_read (tag # tags) = (if is_name_tag tag then [tag] else tag # tags_read tags)"

definition instance_readable :: "json \<Rightarrow> bool" where
  "instance_readable instance =
     (is_obj instance \<and>
      (case field instance ''Tags'' (JList []) of
         JList tags \<Rightarrow> list_all tag_ok (tags_read tags) | _ \<Rightarrow> False) \<and>
      is_obj (field instance ''State'' (JObj [])))"

definition reservation_readable :: "json \<Rightarrow> bool" where
  "reservation_readable reservation =
     (is_obj reservation \<and>
      (case field reservation ''Instances'' (JList []) of
         JList insts \<Rightarrow> list_all instance_readable insts | _ \<Rightarrow> False))"

text \<open>The first view of a list, if there is one, has a string for its name.\<close>

definition first_named :: "json list \<Rightarrow> bool" where
  "first_named views = (case views of [] \<Rightarrow> True | v # _ \<Rightarrow> is_str (field v ''name'' JNull))"

definition first_name :: "json list \<Rightarrow> string" where
  "first_name views = (case views of [] \<Rightarrow> [] | v # _ \<Rightarrow> str_of (field v ''name'' JNull))"

text \<open>The replies to the secondary calls that a collector makes for one item of its list.\<close>

definition versioning_reply :: "runtime \<Rightarrow> json \<Rightarrow> json option" where
  "versioning_reply rt bucket =
     run_aws_command rt ''s3api'' ''get-bucket-versioning''
       (Some [JStr ''--bucket'', field bucket ''Name'' (JStr '''')])"

definition describe_table_reply :: "runtime \<Rightarrow> json \<Rightarrow> json option" where
  "describe_table_reply rt table_name =
     run_aws_command rt ''dynamodb'' ''describe-table'' (Some [JStr ''--table-name'', table_name])"

definition access_keys_reply :: "runtime \<Rightarrow> json \<Rightarrow> json option" where
  "access_keys_reply rt user =
     run_aws_command rt ''iam'' ''list-access-keys''
       (Some [JStr ''--user-name'', field user ''UserName'' (JStr '''')])"

definition policies_reply :: "runtime \<Rightarrow> json \<Rightarrow> json option" where
  "policies_reply rt user =
     run_aws_command rt ''iam'' ''list-attached-user-policies''
       (Some [JStr ''--user-name'', field user ''UserName'' (JStr '''')])"

section \<open>Concrete backends\<close>

text \<open>
  A backend given by a table of canned replies: the command line, the text the process
  prints, and the value \<^verbatim>\<open>json.loads\<close> makes of that text. A command line that is
  not in the table exits with a non-zero code. The program runs against LocalStack.
\<close>

definition aws_cmd :: "string \<Rightarrow> string \<Rightarrow> json list \<Rightarrow> json list" where
  "aws_cmd service action extra =
     [JStr ''aws'', JStr ''--endpoint-url'', JStr ''http://localhost:4566'',
      JStr service, JStr action, JStr ''--output'', JStr ''json''] @ extra"

definition repr_demo :: "json \<Rightarrow> string" where
  "repr_demo v = ''<repr>''"

definition canned_runtime :: "(json list \<times> string \<times> json) list \<Rightarrow> runtime" where
  "canned_runtime replies =
     \<lparr>USE_AWS = False,
      subprocess_run = (\<lambda>cmd.
        case map_of replies cmd of
          None \<Rightarrow> Some \<lparr>returncode = 254, stdout = []\<rparr>
        | Some (out, v) \<Rightarrow> Some \<lparr>returncode = 0, stdout = out\<rparr>),
      json_loads = (\<lambda>s. map_of (map snd replies) s),
      py_repr = repr_demo\<rparr>"

text \<open>The backend is down: every command fails.\<close>

definition rt_down :: runtime where
  "rt_down = canned_runtime []"

text \<open>One table is listed and its \<^verbatim>\<open>describe-table\<close> call fails.\<close>

definition rt_partial :: runtime where
  \<open>rt_partial = canned_runtime
     [(aws_cmd ''dynamodb'' ''list-tables'' [],
       ''{"TableNames": ["locks"]}'',
       JObj [(''TableNames'', JList [JStr ''locks''])])]\<close>

text \<open>
  Two buckets, two users and two tables; the secondary calls fail for the bucket
  \<^verbatim>\<open>tfstate\<close>, the user \<^verbatim>\<open>deployer\<close> and the table \<^verbatim>\<open>locks\<close>.
\<close>

definition rt_mixed :: runtime where
  \<open>rt_mixed = canned_runtime
     [(aws_cmd ''s3api'' ''list-buckets'' [],
       ''{"Buckets": [{"Name": "tfstate"}, {"Name": "logs"}]}'',
       JObj [(''Buckets'', JList [JObj [(''Name'', JStr ''tfstate'')],
                                  JObj [(''Name'', JStr ''logs'')]])]),
      (aws_cmd ''s3api'' ''get-bucket-versioning'' [JStr ''--bucket'', JStr ''logs''],
       ''{"Status": "Enabled"}'',
       JObj [(''Status'', JStr ''Enabled'')]),
      (aws_cmd ''iam'' ''list-users'' [],
       ''{"Users": [{"UserName": "deployer"}, {"UserName": "auditor"}]}'',
       JObj [(''Users'', JList [JObj [(''UserName'', JStr ''deployer'')],
                                JObj [(''UserName'', JStr ''auditor'')]])]),
      (aws_cmd ''iam'' ''list-access-keys'' [JStr ''--user-name'', JStr ''auditor''],
       ''{"AccessKeyMetadata": [{"AccessKeyId": "AKIA1", "Status": "Active"}]}'',
       JObj [(''AccessKeyMetadata'',
              JList [JObj [(''AccessKeyId'', JStr ''AKIA1''), (''Status'', JStr ''Active'')]])]),
      (aws_cmd ''dynamodb'' ''list-tables'' [],
       ''{"TableNames": ["locks", "audit"]}'',
       JObj [(''TableNames'', JList [JStr ''locks'', JStr ''audit''])]),
      (aws_cmd ''dynamodb'' ''describe-table'' [JStr ''--table-name'', JStr ''audit''],
       ''{"Table": {"TableStatus": "ACTIVE"}}'',
       JObj [(''Table'', JObj [(''TableStatus'', JStr ''ACTIVE'')])])]\<close>

text \<open>
  One bucket whose versioning was never configured: \<^verbatim>\<open>get-bucket-versioning\<close> exits
  with code 0 and prints nothing.
\<close>

definition rt_unversioned :: runtime where
  \<open>rt_unversioned = canned_runtime
     [(aws_cmd ''s3api'' ''list-buckets'' [],
       ''{"Buckets": [{"Name": "tfstate"}]}'',
       JObj [(''Buckets'', JList [JObj [(''Name'', JStr ''tfstate'')]])]),
      (aws_cmd ''s3api'' ''get-bucket-versioning'' [JStr ''--bucket'', JStr ''tfstate''],
       '''',
       JObj [])]\<close>

text \<open>Two tables: the key schema of the specification's example, and one with two hash keys.\<close>

definition rt_tables :: runtime where
  \<open>rt_tables = canned_runtime
     [(aws_cmd ''dynamodb'' ''list-tables'' [],
       ''{"TableNames": ["locks", "dup"]}'',
       JObj [(''TableNames'', JList [JStr ''locks'', JStr ''dup''])]),
      (aws_cmd ''dynamodb'' ''describe-table'' [JStr ''--table-name'', JStr ''locks''],
       ''{"Table": {"KeySchema": [{"AttributeName": "id", "KeyType": "HASH"}, {"AttributeName": "ts", "KeyType": "RANGE"}], "TableStatus": "ACTIVE"}}'',
       JObj [(''Table'', JObj [
          (''KeySchema'', JList [
             JObj [(''AttributeName'', JStr ''id''), (''KeyType'', JStr ''HASH'')],
             JObj [(''AttributeName'', JStr ''ts''), (''KeyType'', JStr ''RANGE'')]]),
          (''TableStatus'', JStr ''ACTIVE'')])]),
      (aws_cmd ''dynamodb'' ''describe-table'' [JStr ''--table-name'', JStr ''dup''],
       ''{"Table": {"KeySchema": [{"AttributeName": "a", "KeyType": "HASH"}, {"AttributeName": "b", "KeyType": "HASH"}], "ItemCount": 3}}'',
       JObj [(''Table'', JObj [
          (''KeySchema'', JList [
             JObj [(''AttributeName'', JStr ''a''), (''KeyType'', JStr ''HASH'')],
             JObj [(''AttributeName'', JStr ''b''), (''KeyType'', JStr ''HASH'')]]),
          (''ItemCount'', JInt 3)])])]\<close>

text \<open>An instance whose \<^verbatim>\<open>Name\<close> tag has the empty value, and one with several tags.\<close>

definition instance_unnamed_tag :: json where
  "instance_unnamed_tag =
     JObj [(''InstanceId'', JStr ''i-0abc''),
           (''Tags'', JList [JObj [(''Key'', JStr ''Name''), (''Value'', JStr '''')]])]"

definition instance_web :: json where
  "instance_web =
     JObj [(''InstanceId'', JStr ''i-0abc''),
           (''Tags'', JList [JObj [(''Key'', JStr ''Env''), (''Value'', JStr ''prod'')],
                             JObj [(''Key'', JStr ''Name''), (''Value'', JStr ''web-1'')],
                             JObj [(''Key'', JStr ''Name''), (''Value'', JStr ''web-2'')]])]"

text \<open>One instance whose second tag has no \<^verbatim>\<open>Key\<close>.\<close>

definition rt_keyless_tag :: runtime where
  \<open>rt_keyless_tag = canned_runtime
     [(aws_cmd ''ec2'' ''describe-instances'' [],
       ''{"Reservations": [{"Instances": [{"InstanceId": "i-0abc", "Tags": [{"Key": "Env", "Value": "prod"}, {"Value": "web-1"}]}]}]}'',
       JObj [(''Reservations'', JList [JObj [(''Instances'', JList [
          JObj [(''InstanceId'', JStr ''i-0abc''),
                (''Tags'', JList [JObj [(''Key'', JStr ''Env''), (''Value'', JStr ''prod'')],
                                  JObj [(''Value'', JStr ''web-1'')]])]])]])])]\<close>

text \<open>
  One instance with a tag without a \<^verbatim>\<open>Key\<close> after its \<^verbatim>\<open>Name\<close> tag; and one
  security group with a rule whose \<^verbatim>\<open>IpRanges\<close> is an object, not a list.
\<close>

definition rt_trailing_keyless :: runtime where
  \<open>rt_trailing_keyless = canned_runtime
     [(aws_cmd ''ec2'' ''describe-instances'' [],
       ''{"Reservations": [{"Instances": [{"InstanceId": "i-0abc", "Tags": [{"Key": "Name", "Value": "web-1"}, {"Value": "x"}]}]}]}'',
       JObj [(''Reservations'', JList [JObj [(''Instances'', JList [
          JObj [(''InstanceId'', JStr ''i-0abc''),
                (''Tags'', JList [JObj [(''Key'', JStr ''Name''), (''Value'', JStr ''web-1'')],
                                  JObj [(''Value'', JStr ''x'')]])]])]])])]\<close>

definition rt_ranges_object :: runtime where
  \<open>rt_ranges_object = canned_runtime
     [(aws_cmd ''ec2'' ''describe-security-groups'' [],
       ''{"SecurityGroups": [{"GroupName": "web-sg", "IpPermissions": [{"FromPort": 22, "IpRanges": {"CidrIp": "10.0.0.0/16"}}]}]}'',
       JObj [(''SecurityGroups'', JList [
          JObj [(''GroupName'', JStr ''web-sg''),
                (''IpPermissions'', JList [
                   JObj [(''FromPort'', JInt 22),
                         (''IpRanges'', JObj [(''CidrIp'', JStr ''10.0.0.0/16'')])]])]])])]\<close>

text \<open>Two key pairs: a long fingerprint without a type, a short one with a type.\<close>

definition rt_keys :: runtime where
  \<open>rt_keys = canned_runtime
     [(aws_cmd ''ec2'' ''describe-key-pairs'' [],
       ''{"KeyPairs": [{"KeyName": "deploy", "KeyFingerprint": "1f:51:ae:28:bf:89:e9:d8:1f:25:5d:37:2d:7d:b8:ca:9f:f5:f1:6f"}, {"KeyName": "ops", "KeyFingerprint": "ab:cd", "KeyType": "ed25519"}]}'',
       JObj [(''KeyPairs'', JList [
          JObj [(''KeyName'', JStr ''deploy''),
                (''KeyFingerprint'',
                 JStr ''1f:51:ae:28:bf:89:e9:d8:1f:25:5d:37:2d:7d:b8:ca:9f:f5:f1:6f'')],
          JObj [(''KeyName'', JStr ''ops''), (''KeyFingerprint'', JStr ''ab:cd''),
                (''KeyType'', JStr ''ed25519'')]])])]\<close>

text \<open>
  Three groups: the default one with a malformed rule list, the group of the
  specification's example, and one whose first rule has two ranges and whose second rule
  has neither a port nor a range.
\<close>

definition rt_groups :: runtime where
  \<open>rt_groups = canned_runtime
     [(aws_cmd ''ec2'' ''describe-security-groups'' [],
       ''{"SecurityGroups": [{"GroupName": "default", "IpPermissions": 7}, {"GroupName": "web-sg", "IpPermissions": [{"FromPort": 22, "IpRanges": [{"CidrIp": "10.0.0.0/16"}]}]}, {"GroupName": "db-sg", "IpPermissions": [{"FromPort": 5432, "IpRanges": [{"CidrIp": "10.1.0.0/16"}, {"CidrIp": "10.2.0.0/16"}]}, {"IpRanges": []}]}]}'',
       JObj [(''SecurityGroups'', JList [
          JObj [(''GroupName'', JStr ''default''), (''IpPermissions'', JInt 7)],
          JObj [(''GroupName'', JStr ''web-sg''),
                (''IpPermissions'', JList [
                   JObj [(''FromPort'', JInt 22),
                         (''IpRanges'', JList [JObj [(''CidrIp'', JStr ''10.0.0.0/16'')]])]])],
          JObj [(''GroupName'', JStr ''db-sg''),
                (''IpPermissions'', JList [
                   JObj [(''FromPort'', JInt 5432),
                         (''IpRanges'', JList [JObj [(''CidrIp'', JStr ''10.1.0.0/16'')],
                                               JObj [(''CidrIp'', JStr ''10.2.0.0/16'')]])],
                   JObj [(''IpRanges'', JList [])]])]])])]\<close>

section \<open>Basic facts\<close>

lemma and_then_Inr [simp]: "and_then (Inr x) f = f x"
  by (simp add: and_then_def)

lemma and_then_Inl [simp]: "and_then (Inl e) f = Inl e"
  by (simp add: and_then_def)

lemma run_canned:
  "run_aws_command (canned_runtime replies) service action extra =
     (case map_of replies (aws_cmd service action (case extra of None \<Rightarrow> [] | Some args \<Rightarrow> args)) of
        None \<Rightarrow> None
      | Some (out, v) \<Rightarrow>
          if out \<noteq> []
          then (case map_of (map snd replies) out of
                  None \<Rightarrow> None
                | Some JNull \<Rightarrow> None
                | Some parsed \<Rightarrow> Some parsed)
          else Some (JObj []))"
  by (simp add: run_aws_command_def command_line_def canned_runtime_def aws_cmd_def
      LOCALSTACK_ENDPOINT_def split: option.splits)

text \<open>The command runner turns every failure into \<open>None\<close>.\<close>

lemma run_aws_command_unavailable:
  "subprocess_run rt (command_line rt service action extra_args) = None
     \<Longrightarrow> run_aws_command rt service action extra_args = None"
  "subprocess_run rt (command_line rt service action extra_args) = Some result
     \<Longrightarrow> returncode result \<noteq> 0
     \<Longrightarrow> run_aws_command rt service action extra_args = None"
  "subprocess_run rt (command_line rt service action extra_args) = Some result
     \<Longrightarrow> returncode result = 0 \<Longrightarrow> stdout result \<noteq> []
     \<Longrightarrow> json_loads rt (stdout result) = None
     \<Longrightarrow> run_aws_command rt service action extra_args = None"
  by (simp_all add: run_aws_command_def)

lemma run_aws_command_empty_output:
  "subprocess_run rt (command_line rt service action extra_args) = Some result
     \<Longrightarrow> returncode result = 0 \<Longrightarrow> stdout result = []
     \<Longrightarrow> run_aws_command rt service action extra_args = Some (JObj [])"
  by (simp add: run_aws_command_def)

lemma py_get_obj: "is_obj v \<Longrightarrow> py_get v k d = Inr (field v k d)"
  by (cases v) simp_all

lemma for_each_concat:
  "(\<And>x. x \<in> set xs \<Longrightarrow> body x = Inr (g x)) \<Longrightarrow> for_each body xs = Inr (concat (map g xs))"
  by (induction xs) simp_all

lemma for_each_map:
  "(\<And>x. x \<in> set xs \<Longrightarrow> body x = Inr [g x]) \<Longrightarrow> for_each body xs = Inr (map g xs)"
  by (induction xs) simp_all

lemma and_then_eq_Inr: "and_then m f = Inr y \<longleftrightarrow> (\<exists>x. m = Inr x \<and> f x = Inr y)"
  by (cases m) simp_all

lemma for_each_elem:
  "for_each body xs = Inr ys \<Longrightarrow> y \<in> set ys \<Longrightarrow>
   \<exists>x \<in> set xs. \<exists>zs. body x = Inr zs \<and> y \<in> set zs"
proof (induction xs arbitrary: ys)
  case Nil
  then show ?case by simp
next
  case (Cons x xs)
  from Cons.prems(1) obtain zs rest where zs: "body x = Inr zs"
    and rest: "for_each body xs = Inr rest" and ys: "ys = zs @ rest"
    by (auto simp: and_then_eq_Inr)
  with Cons.prems(2) have "y \<in> set zs \<or> y \<in> set rest" by simp
  then show ?case
  proof
    assume "y \<in> set zs"
    with zs show ?thesis by auto
  next
    assume "y \<in> set rest"
    with Cons.IH [OF rest] show ?thesis by auto
  qed
qed

lemma for_each_all_return:
  "for_each body xs = Inr ys \<Longrightarrow> x \<in> set xs \<Longrightarrow> \<exists>zs. body x = Inr zs"
  by (induction xs arbitrary: ys) (auto simp: and_then_eq_Inr)

lemma for_each_raises:
  assumes "list_all (\<lambda>x. \<exists>zs. body x = Inr zs) xs" and "body x = Inl e"
  shows "for_each body (xs @ x # ys) = Inl e"
  using assms by (induction xs) auto

text \<open>A loop over a list field of a reply, as the collectors write it.\<close>

lemma listing_loop:
  assumes "listing_ok k (Some v)" and "\<And>x. is_obj x \<Longrightarrow> body x = Inr [g x]"
  shows "(if \<not> py_truthy v then Inr []
          else and_then (py_get v k (JList [])) (\<lambda>xs. and_then (py_iter xs) (for_each body)))
         = Inr (map g (items v k))"
proof (cases "py_truthy v")
  case False
  with assms(1) show ?thesis
    by (cases v) (simp_all add: listing_ok_def items_def)
next
  case True
  from assms(1) obtain xs where xs: "field v k (JList []) = JList xs"
    and objs: "list_all is_obj xs" and v: "is_obj v"
    by (auto simp: listing_ok_def split: json.splits)
  have "for_each body xs = Inr (map g xs)"
    using objs assms(2) by (intro for_each_map) (simp add: list_all_iff)
  with True xs v show ?thesis
    by (simp add: py_get_obj items_def)
qed

lemma listing_case:
  assumes "listing_ok k r" and "\<And>x. is_obj x \<Longrightarrow> body x = Inr [g x]"
  shows "(case r of
            None \<Rightarrow> Inr []
          | Some v \<Rightarrow>
              if \<not> py_truthy v then Inr []
              else and_then (py_get v k (JList [])) (\<lambda>xs. and_then (py_iter xs) (for_each body)))
         = Inr (case r of None \<Rightarrow> [] | Some v \<Rightarrow> map g (items v k))"
proof (cases r)
  case None
  then show ?thesis by simp
next
  case (Some v)
  with assms show ?thesis
    using listing_loop [of k v body g] by simp
qed

section \<open>What each collector returns on well-formed replies\<close>

subsection \<open>Buckets\<close>

lemma s3_bucket_body_ok:
  assumes "is_obj bucket" and "unavailable_or_obj (versioning_reply rt bucket)"
  shows "s3_bucket_body rt bucket =
    Inr [JObj [(''name'', field bucket ''Name'' (JStr '''')),
               (''created'', field bucket ''CreationDate'' (JStr '''')),
               (''versioning'',
                  case versioning_reply rt bucket of
                    None \<Rightarrow> JStr ''Unknown''
                  | Some v \<Rightarrow> if py_truthy v then field v ''Status'' (JStr ''Disabled'')
                              else JStr ''Unknown'')]]"
  using assms
  by (simp add: s3_bucket_body_def py_get_obj versioning_reply_def unavailable_or_obj_def
      split: option.splits)

lemma get_s3_buckets_ok:
  assumes "run_aws_command rt ''s3api'' ''list-buckets'' None = Some data"
    and "py_truthy data"
    and "py_get data ''Buckets'' (JList []) = Inr (JList bs)"
    and "list_all is_obj bs"
    and "list_all (\<lambda>b. unavailable_or_obj (versioning_reply rt b)) bs"
  shows "get_s3_buckets rt =
    Inr (map (\<lambda>bucket.
      JObj [(''name'', field bucket ''Name'' (JStr '''')),
            (''created'', field bucket ''CreationDate'' (JStr '''')),
            (''versioning'',
               case versioning_reply rt bucket of
                 None \<Rightarrow> JStr ''Unknown''
               | Some v \<Rightarrow> if py_truthy v then field v ''Status'' (JStr ''Disabled'')
                           else JStr ''Unknown'')]) bs)"
proof -
  have "for_each (s3_bucket_body rt) bs = Inr (map (\<lambda>bucket.
      JObj [(''name'', field bucket ''Name'' (JStr '''')),
            (''created'', field bucket ''CreationDate'' (JStr '''')),
            (''versioning'',
               case versioning_reply rt bucket of
                 None \<Rightarrow> JStr ''Unknown''
               | Some v \<Rightarrow> if py_truthy v then field v ''Status'' (JStr ''Disabled'')
                           else JStr ''Unknown'')]) bs)"
    using assms(4,5) by (intro for_each_map s3_bucket_body_ok) (simp_all add: list_all_iff)
  then show ?thesis
    using assms(1-3) by (simp add: get_s3_buckets_def)
qed

subsection \<open>Users\<close>

lemma access_key_body_ok:
  "is_obj key \<Longrightarrow> access_key_body key =
     Inr [JObj [(''id'', field key ''AccessKeyId'' (JStr '''')),
                (''status'', field key ''Status'' (JStr ''Unknown''))]]"
  by (simp add: access_key_body_def py_get_obj)

lemma policy_body_ok:
  "is_obj policy \<Longrightarrow> policy_body policy = Inr [field policy ''PolicyName'' (JStr '''')]"
  by (simp add: policy_body_def py_get_obj)

lemma iam_user_body_ok:
  assumes "is_obj user"
    and "listing_ok ''AccessKeyMetadata'' (access_keys_reply rt user)"
    and "listing_ok ''AttachedPolicies'' (policies_reply rt user)"
  shows "iam_user_body rt user =
    Inr [JObj [(''name'', field user ''UserName'' (JStr '''')),
               (''arn'', field user ''Arn'' (JStr '''')),
               (''created'', field user ''CreateDate'' (JStr '''')),
               (''access_keys'', JList
                  (case access_keys_reply rt user of
                     None \<Rightarrow> []
                   | Some v \<Rightarrow> map (\<lambda>key. JObj [(''id'', field key ''AccessKeyId'' (JStr '''')),
                                  (''status'', field key ''Status'' (JStr ''Unknown''))])
                               (items v ''AccessKeyMetadata''))),
               (''policies'', JList
                  (case policies_reply rt user of
                     None \<Rightarrow> []
                   | Some v \<Rightarrow> map (\<lambda>policy. field policy ''PolicyName'' (JStr ''''))
                               (items v ''AttachedPolicies'')))]]"
proof -
  note keys = listing_case [OF assms(2), of access_key_body, OF access_key_body_ok]
  note pols = listing_case [OF assms(3), of policy_body, OF policy_body_ok]
  show ?thesis
    unfolding iam_user_body_def
    using assms(1) keys pols
    by (simp add: py_get_obj access_keys_reply_def policies_reply_def)
qed

lemma get_iam_users_ok:
  assumes "run_aws_command rt ''iam'' ''list-users'' None = Some data"
    and "py_truthy data"
    and "py_get data ''Users'' (JList []) = Inr (JList us)"
    and "list_all is_obj us"
    and "list_all (\<lambda>u. listing_ok ''AccessKeyMetadata'' (access_keys_reply rt u)) us"
    and "list_all (\<lambda>u. listing_ok ''AttachedPolicies'' (policies_reply rt u)) us"
  shows "get_iam_users rt =
    Inr (map (\<lambda>user.
      JObj [(''name'', field user ''UserName'' (JStr '''')),
            (''arn'', field user ''Arn'' (JStr '''')),
            (''created'', field user ''CreateDate'' (JStr '''')),
            (''access_keys'', JList
               (case access_keys_reply rt user of
                  None \<Rightarrow> []
                | Some v \<Rightarrow> map (\<lambda>key. JObj [(''id'', field key ''AccessKeyId'' (JStr '''')),
                               (''status'', field key ''Status'' (JStr ''Unknown''))])
                            (items v ''AccessKeyMetadata''))),
            (''policies'', JList
               (case policies_reply rt user of
                  None \<Rightarrow> []
                | Some v \<Rightarrow> map (\<lambda>policy. field policy ''PolicyName'' (JStr ''''))
                            (items v ''AttachedPolicies'')))]) us)"
proof -
  have "for_each (iam_user_body rt) us = Inr (map (\<lambda>user.
      JObj [(''name'', field user ''UserName'' (JStr '''')),
            (''arn'', field user ''Arn'' (JStr '''')),
            (''created'', field user ''CreateDate'' (JStr '''')),
            (''access_keys'', JList
               (case access_keys_reply rt user of
                  None \<Rightarrow> []
                | Some v \<Rightarrow> map (\<lambda>key. JObj [(''id'', field key ''AccessKeyId'' (JStr '''')),
                               (''status'', field key ''Status'' (JStr ''Unknown''))])
                            (items v ''AccessKeyMetadata''))),
            (''policies'', JList
               (case policies_reply rt user of
                  None \<Rightarrow> []
                | Some v \<Rightarrow> map (\<lambda>policy. field policy ''PolicyName'' (JStr ''''))
                            (items v ''AttachedPolicies'')))]) us)"
    using assms(4-6) by (intro for_each_map iam_user_body_ok) (simp_all add: list_all_iff)
  then show ?thesis
    using assms(1-3) by (simp add: get_iam_users_def)
qed

subsection \<open>Tables\<close>

lemma hash_key_loop_ok:
  "list_all is_obj attrs \<Longrightarrow>
   hash_key_loop hk attrs =
     Inr (if filter is_hash attrs = [] then hk
          else field (last (filter is_hash attrs)) ''AttributeName'' (JStr ''''))"
  by (induction attrs arbitrary: hk) (simp_all add: py_get_obj is_hash_def)

lemma py_contains_obj: "is_obj d \<Longrightarrow> py_contains k d = Inr (has_field d k)"
  by (cases d) simp_all

lemma py_subscript_obj: "has_field d k \<Longrightarrow> py_subscript d k = Inr (field d k dflt)"
  by (cases d) auto

lemma not_truthy_no_field: "is_obj d \<Longrightarrow> \<not> py_truthy d \<Longrightarrow> \<not> has_field d k"
  by (cases d) simp_all

lemma dynamodb_table_body_ok:
  assumes "describe_ok (describe_table_reply rt table_name)"
  shows "dynamodb_table_body rt table_name =
    Inr (case describe_table_reply rt table_name of
           None \<Rightarrow> []
         | Some d \<Rightarrow>
             if has_field d ''Table''
             then [JObj [(''name'', table_name),
                         (''hash_key'', last_hash_key (items (field d ''Table'' JNull) ''KeySchema'')),
                         (''status'', field (field d ''Table'' JNull) ''TableStatus'' (JStr ''UNKNOWN'')),
                         (''item_count'', field (field d ''Table'' JNull) ''ItemCount'' (JInt 0))]]
             else [])"
proof (cases "describe_table_reply rt table_name")
  case None
  then show ?thesis
    by (simp add: dynamodb_table_body_def describe_table_reply_def)
next
  case (Some d)
  with assms have d: "is_obj d" by (simp add: describe_ok_def)
  show ?thesis
  proof (cases "has_field d ''Table''")
    case False
    with Some d show ?thesis
      by (simp add: dynamodb_table_body_def describe_table_reply_def py_contains_obj)
  next
    case True
    with Some assms have t: "table_ok (field d ''Table'' JNull)"
      by (simp add: describe_ok_def)
    then obtain attrs where attrs: "field (field d ''Table'' JNull) ''KeySchema'' (JList []) = JList attrs"
      and objs: "list_all is_obj attrs" and tobj: "is_obj (field d ''Table'' JNull)"
      by (auto simp: table_ok_def split: json.splits)
    from True d have truthy: "py_truthy d"
      using not_truthy_no_field by blast
    from Some True d truthy attrs objs tobj show ?thesis
      by (simp add: dynamodb_table_body_def describe_table_reply_def py_contains_obj
          py_subscript_obj [where dflt = JNull] py_get_obj hash_key_loop_ok last_hash_key_def
          items_def)
  qed
qed

lemma get_dynamodb_tables_ok:
  assumes "run_aws_command rt ''dynamodb'' ''list-tables'' None = Some data"
    and "py_truthy data"
    and "py_get data ''TableNames'' (JList []) = Inr (JList names)"
    and "list_all (\<lambda>n. describe_ok (describe_table_reply rt n)) names"
  shows "get_dynamodb_tables rt =
    Inr (concat (map (\<lambda>table_name.
      case describe_table_reply rt table_name of
        None \<Rightarrow> []
      | Some d \<Rightarrow>
          if has_field d ''Table''
          then [JObj [(''name'', table_name),
                      (''hash_key'', last_hash_key (items (field d ''Table'' JNull) ''KeySchema'')),
                      (''status'', field (field d ''Table'' JNull) ''TableStatus'' (JStr ''UNKNOWN'')),
                      (''item_count'', field (field d ''Table'' JNull) ''ItemCount'' (JInt 0))]]
          else []) names))"
proof -
  have "for_each (dynamodb_table_body rt) names = Inr (concat (map (\<lambda>table_name.
      case describe_table_reply rt table_name of
        None \<Rightarrow> []
      | Some d \<Rightarrow>
          if has_field d ''Table''
          then [JObj [(''name'', table_name),
                      (''hash_key'', last_hash_key (items (field d ''Table'' JNull) ''KeySchema'')),
                      (''status'', field (field d ''Table'' JNull) ''TableStatus'' (JStr ''UNKNOWN'')),
                      (''item_count'', field (field d ''Table'' JNull) ''ItemCount'' (JInt 0))]]
          else []) names))"
    using assms(4) by (intro for_each_concat dynamodb_table_body_ok) (simp add: list_all_iff)
  then show ?thesis
    using assms(1-3) by (simp add: get_dynamodb_tables_def)
qed

subsection \<open>Key pairs\<close>

lemma key_pair_body_ok:
  assumes "key_ok key"
  shows "key_pair_body key =
    Inr [JObj [(''name'', field key ''KeyName'' (JStr '''')),
               (''fingerprint'',
                  JStr (take 40 (str_of (field key ''KeyFingerprint'' (JStr ''''))) @ ''...'')),
               (''type'', field key ''KeyType'' (JStr ''rsa''))]]"
proof -
  from assms obtain fp where "field key ''KeyFingerprint'' (JStr '''') = JStr fp"
    by (cases "field key ''KeyFingerprint'' (JStr '''')") (simp_all add: key_ok_def)
  with assms show ?thesis
    by (simp add: key_pair_body_def key_ok_def py_get_obj)
qed

subsection \<open>Instances\<close>

lemma tag_name_loop_ok:
  "list_all tag_ok tags \<Longrightarrow>
   tag_name_loop tags =
     Inr (case find is_name_tag tags of None \<Rightarrow> JStr '''' | Some tag \<Rightarrow> field tag ''Value'' JNull)"
proof (induction tags)
  case Nil
  then show ?case by simp
next
  case (Cons tag tags)
  then have this_tag: "tag_ok tag" and rest: "list_all tag_ok tags"
    by simp_all
  from this_tag have key: "has_field tag ''Key''"
    and val: "is_name_tag tag \<Longrightarrow> has_field tag ''Value''"
    by (simp_all add: tag_ok_def)
  show ?case
  proof (cases "is_name_tag tag")
    case True
    with key val show ?thesis
      by (simp add: py_subscript_obj [where dflt = JNull] is_name_tag_def)
  next
    case False
    with key Cons.IH [OF rest] show ?thesis
      by (simp add: py_subscript_obj [where dflt = JNull] is_name_tag_def)
  qed
qed

lemma instance_body_ok:
  assumes "instance_ok instance"
  shows "instance_body instance =
    Inr [JObj [(''id'', field instance ''InstanceId'' (JStr '''')),
               (''name'',
                  py_or (case find is_name_tag (items instance ''Tags'') of
                           None \<Rightarrow> JStr ''''
                         | Some tag \<Rightarrow> field tag ''Value'' JNull) (JStr ''(unnamed)'')),
               (''type'', field instance ''InstanceType'' (JStr '''')),
               (''state'', field (field instance ''State'' (JObj [])) ''Name'' (JStr ''unknown'')),
               (''public_ip'', field instance ''PublicIpAddress'' (JStr '''')),
               (''private_ip'', field instance ''PrivateIpAddress'' (JStr '''')),
               (''key_name'', field instance ''KeyName'' (JStr ''''))]]"
proof -
  from assms obtain tags where tags: "field instance ''Tags'' (JList []) = JList tags"
    and ok: "list_all tag_ok tags" and obj: "is_obj instance"
    and st: "is_obj (field instance ''State'' (JObj []))"
    by (auto simp: instance_ok_def split: json.splits)
  from tags obj st tag_name_loop_ok [OF ok] show ?thesis
    by (simp add: instance_body_def py_get_obj items_def)
qed

lemma tag_name_loop_read:
  "list_all tag_ok (tags_read tags) \<Longrightarrow>
   tag_name_loop tags =
     Inr (case find is_name_tag tags of None \<Rightarrow> JStr '''' | Some tag \<Rightarrow> field tag ''Value'' JNull)"
proof (induction tags)
  case Nil
  then show ?case by simp
next
  case (Cons tag tags)
  show ?case
  proof (cases "is_name_tag tag")
    case True
    with Cons.prems have "has_field tag ''Key''" and "has_field tag ''Value''"
      by (simp_all add: tag_ok_def)
    with True show ?thesis
      by (simp add: py_subscript_obj [where dflt = JNull] is_name_tag_def)
  next
    case False
    with Cons.prems have this_tag: "tag_ok tag" and rest: "list_all tag_ok (tags_read tags)"
      by simp_all
    from this_tag have "has_field tag ''Key''"
      by (simp add: tag_ok_def)
    with False Cons.IH [OF rest] show ?thesis
      by (simp add: py_subscript_obj [where dflt = JNull] is_name_tag_def)
  qed
qed

lemma tag_name_loop_returns:
  "tag_name_loop tags = Inr name \<Longrightarrow> list_all tag_ok (tags_read tags)"
proof (induction tags)
  case Nil
  then show ?case by simp
next
  case (Cons tag tags)
  from Cons.prems obtain k where k: "py_subscript tag ''Key'' = Inr k"
    by (auto simp: and_then_eq_Inr)
  then have key: "has_field tag ''Key''" and fk: "field tag ''Key'' JNull = k"
    by (cases tag; auto split: option.splits)+
  show ?case
  proof (cases "is_name_tag tag")
    case True
    with fk k Cons.prems have "py_subscript tag ''Value'' = Inr name"
      by (simp add: is_name_tag_def)
    then have "has_field tag ''Value''"
      by (cases tag) (auto split: option.splits)
    with True key show ?thesis
      by (simp add: tag_ok_def)
  next
    case False
    with fk k Cons.prems have "tag_name_loop tags = Inr name"
      by (simp add: is_name_tag_def)
    with False key Cons.IH show ?thesis
      by (simp add: tag_ok_def)
  qed
qed

lemma tag_name_loop_key_error:
  "list_all is_obj tags \<Longrightarrow> \<not> list_all tag_ok (tags_read tags) \<Longrightarrow>
   tag_name_loop tags = Inl KeyError"
proof (induction tags)
  case Nil
  then show ?case by simp
next
  case (Cons tag tags)
  then obtain kvs where tag: "tag = JObj kvs"
    by (cases tag) simp_all
  show ?case
  proof (cases "tag_ok tag")
    case False
    with tag show ?thesis
      by (auto simp: tag_ok_def is_name_tag_def split: option.splits)
  next
    case True
    with Cons.prems have "\<not> is_name_tag tag" and "\<not> list_all tag_ok (tags_read tags)"
      by (auto split: if_splits)
    with True Cons show ?thesis
      by (simp add: tag_ok_def py_subscript_obj [where dflt = JNull] is_name_tag_def)
  qed
qed

lemma instance_body_readable:
  assumes "instance_readable instance"
  shows "instance_body instance =
    Inr [JObj [(''id'', field instance ''InstanceId'' (JStr '''')),
               (''name'',
                  py_or (case find is_name_tag (items instance ''Tags'') of
                           None \<Rightarrow> JStr ''''
                         | Some tag \<Rightarrow> field tag ''Value'' JNull) (JStr ''(unnamed)'')),
               (''type'', field instance ''InstanceType'' (JStr '''')),
               (''state'', field (field instance ''State'' (JObj [])) ''Name'' (JStr ''unknown'')),
               (''public_ip'', field instance ''PublicIpAddress'' (JStr '''')),
               (''private_ip'', field instance ''PrivateIpAddress'' (JStr '''')),
               (''key_name'', field instance ''KeyName'' (JStr ''''))]]"
proof -
  from assms obtain tags where tags: "field instance ''Tags'' (JList []) = JList tags"
    and ok: "list_all tag_ok (tags_read tags)" and obj: "is_obj instance"
    and st: "is_obj (field instance ''State'' (JObj []))"
    by (auto simp: instance_readable_def split: json.splits)
  from tags obj st tag_name_loop_read [OF ok] show ?thesis
    by (simp add: instance_body_def py_get_obj items_def)
qed

lemma instance_body_returns:
  assumes "instance_body instance = Inr vs"
  shows "list_all tag_ok (tags_read (items instance ''Tags''))"
proof (cases "field instance ''Tags'' (JList [])")
  case (JList tags)
  from assms have obj: "is_obj instance"
    by (cases "instance") (simp_all add: instance_body_def)
  with assms JList obtain name where "tag_name_loop tags = Inr name"
    by (auto simp: instance_body_def py_get_obj and_then_eq_Inr)
  with JList show ?thesis
    by (simp add: items_def tag_name_loop_returns)
qed (simp_all add: items_def)

lemma instance_body_key_error:
  assumes "py_get instance ''Tags'' (JList []) = Inr (JList tags)"
    and "list_all is_obj tags" and "\<not> list_all tag_ok (tags_read tags)"
  shows "instance_body instance = Inl KeyError"
  using assms by (simp add: instance_body_def tag_name_loop_key_error)

lemma reservation_body_readable:
  assumes "reservation_readable reservation"
  shows "reservation_body reservation =
    Inr (map (\<lambda>instance.
      JObj [(''id'', field instance ''InstanceId'' (JStr '''')),
            (''name'',
               py_or (case find is_name_tag (items instance ''Tags'') of
                        None \<Rightarrow> JStr ''''
                      | Some tag \<Rightarrow> field tag ''Value'' JNull) (JStr ''(unnamed)'')),
            (''type'', field instance ''InstanceType'' (JStr '''')),
            (''state'', field (field instance ''State'' (JObj [])) ''Name'' (JStr ''unknown'')),
            (''public_ip'', field instance ''PublicIpAddress'' (JStr '''')),
            (''private_ip'', field instance ''PrivateIpAddress'' (JStr '''')),
            (''key_name'', field instance ''KeyName'' (JStr ''''))])
      (items reservation ''Instances''))"
proof -
  from assms obtain insts where insts: "field reservation ''Instances'' (JList []) = JList insts"
    and ok: "list_all instance_readable insts" and obj: "is_obj reservation"
    by (auto simp: reservation_readable_def split: json.splits)
  have "for_each instance_body insts = Inr (map (\<lambda>instance.
      JObj [(''id'', field instance ''InstanceId'' (JStr '''')),
            (''name'',
               py_or (case find is_name_tag (items instance ''Tags'') of
                        None \<Rightarrow> JStr ''''
                      | Some tag \<Rightarrow> field tag ''Value'' JNull) (JStr ''(unnamed)'')),
            (''type'', field instance ''InstanceType'' (JStr '''')),
            (''state'', field (field instance ''State'' (JObj [])) ''Name'' (JStr ''unknown'')),
            (''public_ip'', field instance ''PublicIpAddress'' (JStr '''')),
            (''private_ip'', field instance ''PrivateIpAddress'' (JStr '''')),
            (''key_name'', field instance ''KeyName'' (JStr ''''))]) insts)"
    using ok by (intro for_each_map instance_body_readable) (simp add: list_all_iff)
  with insts obj show ?thesis
    by (simp add: reservation_body_def py_get_obj items_def)
qed

lemma reservation_body_returns:
  assumes "reservation_body reservation = Inr vs"
    and "instance \<in> set (items reservation ''Instances'')"
  shows "\<exists>ws. instance_body instance = Inr ws"
proof (cases "field reservation ''Instances'' (JList [])")
  case (JList insts)
  from assms(1) have obj: "is_obj reservation"
    by (cases reservation) (simp_all add: reservation_body_def)
  with assms(1) JList have "for_each instance_body insts = Inr vs"
    by (simp add: reservation_body_def py_get_obj)
  moreover from assms(2) JList have "instance \<in> set insts"
    by (simp add: items_def)
  ultimately show ?thesis
    by (rule for_each_all_return)
qed (insert assms(2), simp_all add: items_def)

lemma get_instances_readable:
  assumes "run_aws_command rt ''ec2'' ''describe-instances'' None = Some data"
    and "py_truthy data"
    and "py_get data ''Reservations'' (JList []) = Inr (JList rs)"
    and "list_all reservation_readable rs"
  shows "get_instances rt =
    Inr (concat (map (\<lambda>reservation. map (\<lambda>instance.
      JObj [(''id'', field instance ''InstanceId'' (JStr '''')),
            (''name'',
               py_or (case find is_name_tag (items instance ''Tags'') of
                        None \<Rightarrow> JStr ''''
                      | Some tag \<Rightarrow> field tag ''Value'' JNull) (JStr ''(unnamed)'')),
            (''type'', field instance ''InstanceType'' (JStr '''')),
            (''state'', field (field instance ''State'' (JObj [])) ''Name'' (JStr ''unknown'')),
            (''public_ip'', field instance ''PublicIpAddress'' (JStr '''')),
            (''private_ip'', field instance ''PrivateIpAddress'' (JStr '''')),
            (''key_name'', field instance ''KeyName'' (JStr ''''))])
      (items reservation ''Instances'')) rs))"
proof -
  have "for_each reservation_body rs = Inr (concat (map (\<lambda>reservation. map (\<lambda>instance.
      JObj [(''id'', field instance ''InstanceId'' (JStr '''')),
            (''name'',
               py_or (case find is_name_tag (items instance ''Tags'') of
                        None \<Rightarrow> JStr ''''
                      | Some tag \<Rightarrow> field tag ''Value'' JNull) (JStr ''(unnamed)'')),
            (''type'', field instance ''InstanceType'' (JStr '''')),
            (''state'', field (field instance ''State'' (JObj [])) ''Name'' (JStr ''unknown'')),
            (''public_ip'', field instance ''PublicIpAddress'' (JStr '''')),
            (''private_ip'', field instance ''PrivateIpAddress'' (JStr '''')),
            (''key_name'', field instance ''KeyName'' (JStr ''''))])
      (items reservation ''Instances'')) rs))"
    using assms(4) by (intro for_each_concat reservation_body_readable) (simp add: list_all_iff)
  then show ?thesis
    using assms(1-3) by (simp add: get_instances_def)
qed

lemma get_instances_returns:
  assumes "run_aws_command rt ''ec2'' ''describe-instances'' None = Some data"
    and "py_truthy data"
    and "py_get data ''Reservations'' (JList []) = Inr (JList rs)"
    and "get_instances rt = Inr views"
    and "reservation \<in> set rs"
    and "instance \<in> set (items reservation ''Instances'')"
  shows "list_all tag_ok (tags_read (items instance ''Tags''))"
proof -
  from assms(1-4) have "for_each reservation_body rs = Inr views"
    by (simp add: get_instances_def)
  from for_each_all_return [OF this assms(5)] obtain vs
    where "reservation_body reservation = Inr vs" by blast
  from reservation_body_returns [OF this assms(6)] obtain ws
    where "instance_body instance = Inr ws" by blast
  then show ?thesis by (rule instance_body_returns)
qed

lemma get_instances_key_error:
  assumes "run_aws_command rt ''ec2'' ''describe-instances'' None = Some data"
    and "py_truthy data"
    and "py_get data ''Reservations'' (JList []) = Inr (JList (rs_before @ reservation # rs_after))"
    and "list_all reservation_readable rs_before"
    and "py_get reservation ''Instances'' (JList []) = Inr (JList (insts_before @ inst # insts_after))"
    and "list_all instance_readable insts_before"
    and "py_get inst ''Tags'' (JList []) = Inr (JList tags)"
    and "list_all is_obj tags"
    and "\<not> list_all tag_ok (tags_read tags)"
  shows "get_instances rt = Inl KeyError"
proof -
  have "instance_body inst = Inl KeyError"
    using assms(7-9) by (rule instance_body_key_error)
  moreover have "list_all (\<lambda>x. \<exists>zs. instance_body x = Inr zs) insts_before"
    using assms(6) by (auto simp: list_all_iff instance_body_readable)
  ultimately have "for_each instance_body (insts_before @ inst # insts_after) = Inl KeyError"
    by (intro for_each_raises)
  then have "reservation_body reservation = Inl KeyError"
    using assms(5) by (simp add: reservation_body_def)
  moreover have "list_all (\<lambda>x. \<exists>zs. reservation_body x = Inr zs) rs_before"
    using assms(4) by (auto simp: list_all_iff reservation_body_readable)
  ultimately have "for_each reservation_body (rs_before @ reservation # rs_after) = Inl KeyError"
    by (intro for_each_raises)
  then show ?thesis
    using assms(1-3) by (simp add: get_instances_def)
qed

subsection \<open>Security groups\<close>

lemma ingress_rule_body_ok:
  assumes "rule_ok rule"
  shows "ingress_rule_body rt rule = Inr [JStr (rule_summary (py_repr rt) rule)]"
proof -
  from assms have obj: "is_obj rule" by (simp add: rule_ok_def)
  show ?thesis
  proof (cases "py_truthy (field rule ''IpRanges'' JNull)")
    case False
    then have "first_cidr rule = JStr ''''"
      by (auto simp: first_cidr_def split: json.splits list.splits)
    with False obj show ?thesis
      by (simp add: ingress_rule_body_def py_get_obj rule_summary_def py_or_def)
  next
    case True
    with assms obtain r rs where r: "field rule ''IpRanges'' JNull = JList (r # rs)" and "is_obj r"
      by (auto simp: rule_ok_def split: json.splits list.splits)
    moreover from r obj have "field rule ''IpRanges'' (JList [JObj []]) = JList (r # rs)"
      by (cases rule) (auto split: option.splits)
    ultimately show ?thesis
      using obj
      by (simp add: ingress_rule_body_def py_get_obj rule_summary_def py_or_def first_cidr_def)
  qed
qed

lemma security_group_body_ok:
  assumes "group_ok sg"
  shows "security_group_body rt sg =
    Inr (if is_default sg then []
         else [JObj [(''id'', field sg ''GroupId'' (JStr '''')),
                     (''name'', field sg ''GroupName'' (JStr '''')),
                     (''description'', field sg ''Description'' (JStr '''')),
                     (''ingress_rules'',
                        JList (map (\<lambda>rule. JStr (rule_summary (py_repr rt) rule))
                                 (items sg ''IpPermissions'')))]])"
proof (cases "is_default sg")
  case True
  with assms show ?thesis
    by (simp add: security_group_body_def group_ok_def py_get_obj is_default_def)
next
  case False
  with assms obtain rules where rules: "field sg ''IpPermissions'' (JList []) = JList rules"
    and ok: "list_all rule_ok rules" and obj: "is_obj sg"
    by (auto simp: group_ok_def split: json.splits)
  have "for_each (ingress_rule_body rt) rules
          = Inr (map (\<lambda>rule. JStr (rule_summary (py_repr rt) rule)) rules)"
    using ok by (intro for_each_map ingress_rule_body_ok) (simp add: list_all_iff)
  with False rules obj show ?thesis
    by (simp add: security_group_body_def py_get_obj is_default_def items_def)
qed

lemma concat_singletons:
  "concat (map (\<lambda>x. if P x then [] else [f x]) xs) = map f (filter (\<lambda>x. \<not> P x) xs)"
  by (induction xs) simp_all

lemma get_security_groups_ok:
  assumes "run_aws_command rt ''ec2'' ''describe-security-groups'' None = Some data"
    and "py_truthy data"
    and "py_get data ''SecurityGroups'' (JList []) = Inr (JList sgs)"
    and "list_all group_ok sgs"
  shows "get_security_groups rt =
    Inr (map (\<lambda>sg.
      JObj [(''id'', field sg ''GroupId'' (JStr '''')),
            (''name'', field sg ''GroupName'' (JStr '''')),
            (''description'', field sg ''Description'' (JStr '''')),
            (''ingress_rules'',
               JList (map (\<lambda>rule. JStr (rule_summary (py_repr rt) rule))
                        (items sg ''IpPermissions'')))])
      (filter (\<lambda>sg. \<not> is_default sg) sgs))"
proof -
  have "for_each (security_group_body rt) sgs = Inr (concat (map (\<lambda>sg.
      if is_default sg then []
      else [JObj [(''id'', field sg ''GroupId'' (JStr '''')),
                  (''name'', field sg ''GroupName'' (JStr '''')),
                  (''description'', field sg ''Description'' (JStr '''')),
                  (''ingress_rules'',
                     JList (map (\<lambda>rule. JStr (rule_summary (py_repr rt) rule))
                              (items sg ''IpPermissions'')))]]) sgs))"
    using assms(4) by (intro for_each_concat security_group_body_ok) (simp add: list_all_iff)
  then show ?thesis
    using assms(1-3) by (simp add: get_security_groups_def concat_singletons)
qed

text \<open>Whatever the reply is: a view that the collector returns is not named \<^verbatim>\<open>default\<close>.\<close>

lemma security_group_body_not_default:
  assumes "security_group_body rt sg = Inr vs" and "v \<in> set vs"
  shows "field v ''name'' JNull \<noteq> JStr ''default''"
  using assms
  by (cases sg)
    (auto simp: security_group_body_def and_then_eq_Inr split: if_splits option.splits)

lemma get_security_groups_no_default:
  assumes "get_security_groups rt = Inr views" and "v \<in> set views"
  shows "field v ''name'' JNull \<noteq> JStr ''default''"
proof -
  from assms(1) obtain sgs where "for_each (security_group_body rt) sgs = Inr views \<or> views = []"
    by (auto simp: get_security_groups_def and_then_eq_Inr split: option.splits if_splits)
  with assms(2) have "for_each (security_group_body rt) sgs = Inr views" by auto
  from for_each_elem [OF this assms(2)] show ?thesis
    using security_group_body_not_default by blast
qed

subsection \<open>The first view of a list, for the diagram\<close>

lemma first_view_name:
  assumes "first_named (v # vs)"
  shows "py_subscript v ''name'' = Inr (JStr (first_name (v # vs)))"
proof -
  from assms have s: "is_str (field v ''name'' JNull)"
    by (simp add: first_named_def)
  then obtain n where n: "field v ''name'' JNull = JStr n"
    by (cases "field v ''name'' JNull") simp_all
  then have "has_field v ''name''"
    by (cases v) (auto split: option.splits)
  with n show ?thesis
    by (simp add: py_subscript_obj [where dflt = JNull] first_name_def)
qed

section \<open>Replies of the concrete backends\<close>

lemma describe_locks:
  "describe_table_reply rt_tables (JStr ''locks'') = Some (JObj [(''Table'', JObj [
          (''KeySchema'', JList [
             JObj [(''AttributeName'', JStr ''id''), (''KeyType'', JStr ''HASH'')],
             JObj [(''AttributeName'', JStr ''ts''), (''KeyType'', JStr ''RANGE'')]]),
          (''TableStatus'', JStr ''ACTIVE'')])])"
  by (simp add: rt_tables_def run_canned aws_cmd_def describe_table_reply_def)

lemma describe_dup:
  "describe_table_reply rt_tables (JStr ''dup'') = Some (JObj [(''Table'', JObj [
          (''KeySchema'', JList [
             JObj [(''AttributeName'', JStr ''a''), (''KeyType'', JStr ''HASH'')],
             JObj [(''AttributeName'', JStr ''b''), (''KeyType'', JStr ''HASH'')]]),
          (''ItemCount'', JInt 3)])])"
  by (simp add: rt_tables_def run_canned aws_cmd_def describe_table_reply_def)

lemma list_tables:
  "run_aws_command rt_tables ''dynamodb'' ''list-tables'' None
     = Some (JObj [(''TableNames'', JList [JStr ''locks'', JStr ''dup''])])"
  by (simp add: rt_tables_def run_canned aws_cmd_def)

lemma mixed_replies:
  "run_aws_command rt_mixed ''s3api'' ''list-buckets'' None
     = Some (JObj [(''Buckets'', JList [JObj [(''Name'', JStr ''tfstate'')],
                                        JObj [(''Name'', JStr ''logs'')]])])"
  "versioning_reply rt_mixed (JObj [(''Name'', JStr ''tfstate'')]) = None"
  "versioning_reply rt_mixed (JObj [(''Name'', JStr ''logs'')])
     = Some (JObj [(''Status'', JStr ''Enabled'')])"
  "run_aws_command rt_mixed ''iam'' ''list-users'' None
     = Some (JObj [(''Users'', JList [JObj [(''UserName'', JStr ''deployer'')],
                                      JObj [(''UserName'', JStr ''auditor'')]])])"
  "access_keys_reply rt_mixed (JObj [(''UserName'', JStr ''deployer'')]) = None"
  "policies_reply rt_mixed (JObj [(''UserName'', JStr ''deployer'')]) = None"
  "access_keys_reply rt_mixed (JObj [(''UserName'', JStr ''auditor'')])
     = Some (JObj [(''AccessKeyMetadata'',
              JList [JObj [(''AccessKeyId'', JStr ''AKIA1''), (''Status'', JStr ''Active'')]])])"
  "policies_reply rt_mixed (JObj [(''UserName'', JStr ''auditor'')]) = None"
  "run_aws_command rt_mixed ''dynamodb'' ''list-tables'' None
     = Some (JObj [(''TableNames'', JList [JStr ''locks'', JStr ''audit''])])"
  "describe_table_reply rt_mixed (JStr ''locks'') = None"
  "describe_table_reply rt_mixed (JStr ''audit'')
     = Some (JObj [(''Table'', JObj [(''TableStatus'', JStr ''ACTIVE'')])])"
  by (simp_all add: rt_mixed_def run_canned aws_cmd_def versioning_reply_def
      access_keys_reply_def policies_reply_def describe_table_reply_def)

lemma mixed_outcomes:
  "get_s3_buckets rt_mixed
     = Inr [JObj [(''name'', JStr ''tfstate''), (''created'', JStr ''''),
                  (''versioning'', JStr ''Unknown'')],
            JObj [(''name'', JStr ''logs''), (''created'', JStr ''''),
                  (''versioning'', JStr ''Enabled'')]]"
  "get_iam_users rt_mixed
     = Inr [JObj [(''name'', JStr ''deployer''), (''arn'', JStr ''''), (''created'', JStr ''''),
                  (''access_keys'', JList []), (''policies'', JList [])],
            JObj [(''name'', JStr ''auditor''), (''arn'', JStr ''''), (''created'', JStr ''''),
                  (''access_keys'', JList [JObj [(''id'', JStr ''AKIA1''),
                                                 (''status'', JStr ''Active'')]]),
                  (''policies'', JList [])]]"
  "get_dynamodb_tables rt_mixed
     = Inr [JObj [(''name'', JStr ''audit''), (''hash_key'', JStr ''''),
                  (''status'', JStr ''ACTIVE''), (''item_count'', JInt 0)]]"
  by (simp_all add: rt_mixed_def run_canned aws_cmd_def get_s3_buckets_def s3_bucket_body_def
      get_iam_users_def iam_user_body_def access_key_body_def get_dynamodb_tables_def
      dynamodb_table_body_def)

lemma keys_reply:
  "run_aws_command rt_keys ''ec2'' ''describe-key-pairs'' None
     = Some (JObj [(''KeyPairs'', JList [
          JObj [(''KeyName'', JStr ''deploy''),
                (''KeyFingerprint'',
                 JStr ''1f:51:ae:28:bf:89:e9:d8:1f:25:5d:37:2d:7d:b8:ca:9f:f5:f1:6f'')],
          JObj [(''KeyName'', JStr ''ops''), (''KeyFingerprint'', JStr ''ab:cd''),
                (''KeyType'', JStr ''ed25519'')]])])"
  by (simp add: rt_keys_def run_canned aws_cmd_def)

lemma str_int_22: "str_int 22 = ''22''"
  by (simp add: str_int_def digit_char_def)

lemma str_int_5432: "str_int 5432 = ''5432''"
  by (simp add: str_int_def digit_char_def)

lemma groups_reply:
  "run_aws_command rt_groups ''ec2'' ''describe-security-groups'' None
     = Some (JObj [(''SecurityGroups'', JList [
          JObj [(''GroupName'', JStr ''default''), (''IpPermissions'', JInt 7)],
          JObj [(''GroupName'', JStr ''web-sg''),
                (''IpPermissions'', JList [
                   JObj [(''FromPort'', JInt 22),
                         (''IpRanges'', JList [JObj [(''CidrIp'', JStr ''10.0.0.0/16'')]])]])],
          JObj [(''GroupName'', JStr ''db-sg''),
                (''IpPermissions'', JList [
                   JObj [(''FromPort'', JInt 5432),
                         (''IpRanges'', JList [JObj [(''CidrIp'', JStr ''10.1.0.0/16'')],
                                               JObj [(''CidrIp'', JStr ''10.2.0.0/16'')]])],
                   JObj [(''IpRanges'', JList [])]])]])])"
  by (simp add: rt_groups_def run_canned aws_cmd_def)

lemma trailing_keyless_reply:
  "run_aws_command rt_trailing_keyless ''ec2'' ''describe-instances'' None
     = Some (JObj [(''Reservations'', JList [JObj [(''Instances'', JList [
          JObj [(''InstanceId'', JStr ''i-0abc''),
                (''Tags'', JList [JObj [(''Key'', JStr ''Name''), (''Value'', JStr ''web-1'')],
                                  JObj [(''Value'', JStr ''x'')]])]])]])])"
  by (simp add: rt_trailing_keyless_def run_canned aws_cmd_def)

lemma keyless_tag_reply:
  "run_aws_command rt_keyless_tag ''ec2'' ''describe-instances'' None
     = Some (JObj [(''Reservations'', JList [JObj [(''Instances'', JList [
          JObj [(''InstanceId'', JStr ''i-0abc''),
                (''Tags'', JList [JObj [(''Key'', JStr ''Env''), (''Value'', JStr ''prod'')],
                                  JObj [(''Value'', JStr ''web-1'')]])]])]])])"
  by (simp add: rt_keyless_tag_def run_canned aws_cmd_def)

lemma trailing_keyless_outcome:
  "get_instances rt_trailing_keyless =
     Inr [JObj [(''id'', JStr ''i-0abc''), (''name'', JStr ''web-1''), (''type'', JStr ''''),
                (''state'', JStr ''unknown''), (''public_ip'', JStr ''''),
                (''private_ip'', JStr ''''), (''key_name'', JStr '''')]]"
  by (simp add: trailing_keyless_reply get_instances_def reservation_body_def
      instance_body_def py_or_def)

lemma ranges_object_reply:
  "run_aws_command rt_ranges_object ''ec2'' ''describe-security-groups'' None
     = Some (JObj [(''SecurityGroups'', JList [
          JObj [(''GroupName'', JStr ''web-sg''),
                (''IpPermissions'', JList [
                   JObj [(''FromPort'', JInt 22),
                         (''IpRanges'', JObj [(''CidrIp'', JStr ''10.0.0.0/16'')])]])]])])"
  by (simp add: rt_ranges_object_def run_canned aws_cmd_def)

section \<open>Properties of the collectors\<close>

text \<open>
  C1. For each of the six collectors: if the primary list call returns \<^verbatim>\<open>None\<close>
  (the command runner's "unavailable"), the collector returns the empty list; it does
  not raise.
\<close>

theorem collectors_unavailable:
  "(run_aws_command rt ''s3api'' ''list-buckets'' None = None
      \<longrightarrow> get_s3_buckets rt = Inr []) \<and>
   (run_aws_command rt ''dynamodb'' ''list-tables'' None = None
      \<longrightarrow> get_dynamodb_tables rt = Inr []) \<and>
   (run_aws_command rt ''iam'' ''list-users'' None = None
      \<longrightarrow> get_iam_users rt = Inr []) \<and>
   (run_aws_command rt ''ec2'' ''describe-key-pairs'' None = None
      \<longrightarrow> get_key_pairs rt = Inr []) \<and>
   (run_aws_command rt ''ec2'' ''describe-instances'' None = None
      \<longrightarrow> get_instances rt = Inr []) \<and>
   (run_aws_command rt ''ec2'' ''describe-security-groups'' None = None
      \<longrightarrow> get_security_groups rt = Inr [])"
  by (simp add: get_s3_buckets_def get_dynamodb_tables_def get_iam_users_def get_key_pairs_def
      get_instances_def get_security_groups_def)

theorem collectors_unavailable_witness:
  "run_aws_command rt_down ''s3api'' ''list-buckets'' None = None \<and>
   get_s3_buckets rt_down = Inr [] \<and>
   run_aws_command rt_down ''dynamodb'' ''list-tables'' None = None \<and>
   get_dynamodb_tables rt_down = Inr [] \<and>
   run_aws_command rt_down ''iam'' ''list-users'' None = None \<and>
   get_iam_users rt_down = Inr [] \<and>
   run_aws_command rt_down ''ec2'' ''describe-key-pairs'' None = None \<and>
   get_key_pairs rt_down = Inr [] \<and>
   run_aws_command rt_down ''ec2'' ''describe-instances'' None = None \<and>
   get_instances rt_down = Inr [] \<and>
   run_aws_command rt_down ''ec2'' ''describe-security-groups'' None = None \<and>
   get_security_groups rt_down = Inr []"
  using collectors_unavailable [of rt_down] by (simp add: rt_down_def run_canned)

text \<open>
  C2, as the code has it. When the list call succeeded and the replies are well formed:
  a bucket whose versioning call is unavailable is still in the result, at its place,
  with versioning \<^verbatim>\<open>"Unknown"\<close>; a user whose access-key or policy call is
  unavailable is still in the result, at its place, with the empty list for that field;
  but a table whose \<^verbatim>\<open>describe-table\<close> call is unavailable is left out of the result:
  the table collector appends a view only under
  \<^verbatim>\<open>if details and "Table" in details\<close>.
\<close>

theorem partial_failure_policy:
  "(run_aws_command rt ''s3api'' ''list-buckets'' None = Some bdata \<and> py_truthy bdata \<and>
    py_get bdata ''Buckets'' (JList []) = Inr (JList bs) \<and> list_all is_obj bs \<and>
    list_all (\<lambda>b. unavailable_or_obj (versioning_reply rt b)) bs
    \<longrightarrow> (\<exists>views. get_s3_buckets rt = Inr views \<and> length views = length bs \<and>
          (\<forall>i<length bs.
             field (views ! i) ''name'' JNull = field (bs ! i) ''Name'' (JStr '''') \<and>
             (versioning_reply rt (bs ! i) = None
                \<longrightarrow> field (views ! i) ''versioning'' JNull = JStr ''Unknown'')))) \<and>
   (run_aws_command rt ''iam'' ''list-users'' None = Some udata \<and> py_truthy udata \<and>
    py_get udata ''Users'' (JList []) = Inr (JList us) \<and> list_all is_obj us \<and>
    list_all (\<lambda>u. listing_ok ''AccessKeyMetadata'' (access_keys_reply rt u)) us \<and>
    list_all (\<lambda>u. listing_ok ''AttachedPolicies'' (policies_reply rt u)) us
    \<longrightarrow> (\<exists>views. get_iam_users rt = Inr views \<and> length views = length us \<and>
          (\<forall>i<length us.
             field (views ! i) ''name'' JNull = field (us ! i) ''UserName'' (JStr '''') \<and>
             (access_keys_reply rt (us ! i) = None
                \<longrightarrow> field (views ! i) ''access_keys'' JNull = JList []) \<and>
             (policies_reply rt (us ! i) = None
                \<longrightarrow> field (views ! i) ''policies'' JNull = JList [])))) \<and>
   (run_aws_command rt ''dynamodb'' ''list-tables'' None = Some tdata \<and> py_truthy tdata \<and>
    py_get tdata ''TableNames'' (JList []) = Inr (JList names) \<and>
    list_all (\<lambda>n. describe_ok (describe_table_reply rt n)) names
    \<longrightarrow> (\<exists>views. get_dynamodb_tables rt = Inr views \<and>
          (\<forall>n \<in> set names. describe_table_reply rt n = None
             \<longrightarrow> \<not> (\<exists>v \<in> set views. field v ''name'' JNull = n))))"
proof (intro conjI impI)
  assume "run_aws_command rt ''s3api'' ''list-buckets'' None = Some bdata \<and> py_truthy bdata \<and>
    py_get bdata ''Buckets'' (JList []) = Inr (JList bs) \<and> list_all is_obj bs \<and>
    list_all (\<lambda>b. unavailable_or_obj (versioning_reply rt b)) bs"
  then show "\<exists>views. get_s3_buckets rt = Inr views \<and> length views = length bs \<and>
          (\<forall>i<length bs.
             field (views ! i) ''name'' JNull = field (bs ! i) ''Name'' (JStr '''') \<and>
             (versioning_reply rt (bs ! i) = None
                \<longrightarrow> field (views ! i) ''versioning'' JNull = JStr ''Unknown''))"
    using get_s3_buckets_ok [of rt bdata bs] by simp
next
  assume "run_aws_command rt ''iam'' ''list-users'' None = Some udata \<and> py_truthy udata \<and>
    py_get udata ''Users'' (JList []) = Inr (JList us) \<and> list_all is_obj us \<and>
    list_all (\<lambda>u. listing_ok ''AccessKeyMetadata'' (access_keys_reply rt u)) us \<and>
    list_all (\<lambda>u. listing_ok ''AttachedPolicies'' (policies_reply rt u)) us"
  then show "\<exists>views. get_iam_users rt = Inr views \<and> length views = length us \<and>
          (\<forall>i<length us.
             field (views ! i) ''name'' JNull = field (us ! i) ''UserName'' (JStr '''') \<and>
             (access_keys_reply rt (us ! i) = None
                \<longrightarrow> field (views ! i) ''access_keys'' JNull = JList []) \<and>
             (policies_reply rt (us ! i) = None
                \<longrightarrow> field (views ! i) ''policies'' JNull = JList []))"
    using get_iam_users_ok [of rt udata us] by simp
next
  assume h: "run_aws_command rt ''dynamodb'' ''list-tables'' None = Some tdata \<and> py_truthy tdata \<and>
    py_get tdata ''TableNames'' (JList []) = Inr (JList names) \<and>
    list_all (\<lambda>n. describe_ok (describe_table_reply rt n)) names"
  show "\<exists>views. get_dynamodb_tables rt = Inr views \<and>
          (\<forall>n \<in> set names. describe_table_reply rt n = None
             \<longrightarrow> \<not> (\<exists>v \<in> set views. field v ''name'' JNull = n))"
    using get_dynamodb_tables_ok [of rt tdata names] h
    by (auto split: option.splits if_splits)
qed

theorem partial_failure_policy_witness:
  "versioning_reply rt_mixed (JObj [(''Name'', JStr ''tfstate'')]) = None \<and>
   get_s3_buckets rt_mixed
     = Inr [JObj [(''name'', JStr ''tfstate''), (''created'', JStr ''''),
                  (''versioning'', JStr ''Unknown'')],
            JObj [(''name'', JStr ''logs''), (''created'', JStr ''''),
                  (''versioning'', JStr ''Enabled'')]] \<and>
   access_keys_reply rt_mixed (JObj [(''UserName'', JStr ''deployer'')]) = None \<and>
   policies_reply rt_mixed (JObj [(''UserName'', JStr ''deployer'')]) = None \<and>
   get_iam_users rt_mixed
     = Inr [JObj [(''name'', JStr ''deployer''), (''arn'', JStr ''''), (''created'', JStr ''''),
                  (''access_keys'', JList []), (''policies'', JList [])],
            JObj [(''name'', JStr ''auditor''), (''arn'', JStr ''''), (''created'', JStr ''''),
                  (''access_keys'', JList [JObj [(''id'', JStr ''AKIA1''),
                                                 (''status'', JStr ''Active'')]]),
                  (''policies'', JList [])]] \<and>
   describe_table_reply rt_mixed (JStr ''locks'') = None \<and>
   get_dynamodb_tables rt_mixed
     = Inr [JObj [(''name'', JStr ''audit''), (''hash_key'', JStr ''''),
                  (''status'', JStr ''ACTIVE''), (''item_count'', JInt 0)]]"
  using partial_failure_policy [where rt = rt_mixed
      and bdata = "JObj [(''Buckets'', JList [JObj [(''Name'', JStr ''tfstate'')],
                                              JObj [(''Name'', JStr ''logs'')]])]"
      and bs = "[JObj [(''Name'', JStr ''tfstate'')], JObj [(''Name'', JStr ''logs'')]]"
      and udata = "JObj [(''Users'', JList [JObj [(''UserName'', JStr ''deployer'')],
                                            JObj [(''UserName'', JStr ''auditor'')]])]"
      and us = "[JObj [(''UserName'', JStr ''deployer'')], JObj [(''UserName'', JStr ''auditor'')]]"
      and tdata = "JObj [(''TableNames'', JList [JStr ''locks'', JStr ''audit''])]"
      and names = "[JStr ''locks'', JStr ''audit'']"]
  by (simp add: mixed_replies mixed_outcomes)

text \<open>
  C2 as stated fails for tables: the list call succeeds with the table \<^verbatim>\<open>locks\<close>,
  its describe call is unavailable, and the result has no entry for it.
\<close>

theorem table_omitted_counterexample:
  "run_aws_command rt_partial ''dynamodb'' ''list-tables'' None
     = Some (JObj [(''TableNames'', JList [JStr ''locks''])]) \<and>
   describe_table_reply rt_partial (JStr ''locks'') = None \<and>
   get_dynamodb_tables rt_partial = Inr []"
  by (simp add: rt_partial_def run_canned aws_cmd_def describe_table_reply_def
      get_dynamodb_tables_def dynamodb_table_body_def)

text \<open>
  C3. The claim: a versioning call that succeeds without a \<^verbatim>\<open>Status\<close> field gives
  \<^verbatim>\<open>"Disabled"\<close>, and \<^verbatim>\<open>"Unknown"\<close> appears only when the call failed. The code at
  a bucket whose versioning was never configured: the call exits with code 0 and prints
  nothing, \<^verbatim>\<open>run_aws_command\<close> returns the empty dictionary for it, which
  \<^verbatim>\<open>if versioning\<close> takes for a failure, and the view says \<^verbatim>\<open>"Unknown"\<close>.
\<close>

theorem empty_versioning_reply_unknown:
  "subprocess_run rt_unversioned
     (aws_cmd ''s3api'' ''get-bucket-versioning'' [JStr ''--bucket'', JStr ''tfstate''])
     = Some \<lparr>returncode = 0, stdout = []\<rparr> \<and>
   versioning_reply rt_unversioned (JObj [(''Name'', JStr ''tfstate'')]) = Some (JObj []) \<and>
   get_s3_buckets rt_unversioned
     = Inr [JObj [(''name'', JStr ''tfstate''), (''created'', JStr ''''),
                  (''versioning'', JStr ''Unknown'')]]"
proof (intro conjI)
  show "subprocess_run rt_unversioned
     (aws_cmd ''s3api'' ''get-bucket-versioning'' [JStr ''--bucket'', JStr ''tfstate''])
     = Some \<lparr>returncode = 0, stdout = []\<rparr>"
    by (simp add: rt_unversioned_def canned_runtime_def aws_cmd_def)
  show "versioning_reply rt_unversioned (JObj [(''Name'', JStr ''tfstate'')]) = Some (JObj [])"
    by (simp add: rt_unversioned_def run_canned aws_cmd_def versioning_reply_def)
  show "get_s3_buckets rt_unversioned
     = Inr [JObj [(''name'', JStr ''tfstate''), (''created'', JStr ''''),
                  (''versioning'', JStr ''Unknown'')]]"
    by (simp add: rt_unversioned_def run_canned aws_cmd_def get_s3_buckets_def s3_bucket_body_def)
qed

text \<open>
  C4. When the list call succeeded and the describe replies are well formed, the result
  has, in the order of the list, one view for each table whose reply has a \<^verbatim>\<open>Table\<close>:
  its \<^verbatim>\<open>hash_key\<close> is the \<^verbatim>\<open>AttributeName\<close> of the last key-schema entry with
  \<^verbatim>\<open>KeyType\<close> \<^verbatim>\<open>"HASH"\<close> and the empty string when there is none
  (\<^const>\<open>last_hash_key\<close>), and its \<^verbatim>\<open>item_count\<close> is 0 when the reply has no
  \<^verbatim>\<open>ItemCount\<close>. The witness has the schema \<^verbatim>\<open>id\<close>/\<^verbatim>\<open>ts\<close> of the specification
  and a schema with two hash keys.
\<close>

theorem table_hash_key_and_item_count:
  assumes "run_aws_command rt ''dynamodb'' ''list-tables'' None = Some data"
    and "py_truthy data"
    and "py_get data ''TableNames'' (JList []) = Inr (JList names)"
    and "list_all (\<lambda>n. describe_ok (describe_table_reply rt n)) names"
  shows "get_dynamodb_tables rt =
    Inr (concat (map (\<lambda>table_name.
      case describe_table_reply rt table_name of
        None \<Rightarrow> []
      | Some d \<Rightarrow>
          if has_field d ''Table''
          then [JObj [(''name'', table_name),
                      (''hash_key'', last_hash_key (items (field d ''Table'' JNull) ''KeySchema'')),
                      (''status'', field (field d ''Table'' JNull) ''TableStatus'' (JStr ''UNKNOWN'')),
                      (''item_count'', field (field d ''Table'' JNull) ''ItemCount'' (JInt 0))]]
          else []) names))"
  using assms by (rule get_dynamodb_tables_ok)

theorem table_hash_key_and_item_count_witness:
  "run_aws_command rt_tables ''dynamodb'' ''list-tables'' None
     = Some (JObj [(''TableNames'', JList [JStr ''locks'', JStr ''dup''])]) \<and>
   list_all (\<lambda>n. describe_ok (describe_table_reply rt_tables n)) [JStr ''locks'', JStr ''dup''] \<and>
   get_dynamodb_tables rt_tables
     = Inr [JObj [(''name'', JStr ''locks''), (''hash_key'', JStr ''id''),
                  (''status'', JStr ''ACTIVE''), (''item_count'', JInt 0)],
            JObj [(''name'', JStr ''dup''), (''hash_key'', JStr ''b''),
                  (''status'', JStr ''UNKNOWN''), (''item_count'', JInt 3)]]"
proof -
  have ok: "list_all (\<lambda>n. describe_ok (describe_table_reply rt_tables n))
              [JStr ''locks'', JStr ''dup'']"
    by (simp add: describe_locks describe_dup describe_ok_def table_ok_def)
  show ?thesis
    using table_hash_key_and_item_count [OF list_tables _ _ ok] ok
    by (simp add: list_tables describe_locks describe_dup last_hash_key_def is_hash_def items_def)
qed

text \<open>
  C5, as the code has it. For every well-formed instance record the collector returns one
  view, and its display name is the \<^verbatim>\<open>Value\<close> of the first tag whose \<^verbatim>\<open>Key\<close> is
  exactly \<^verbatim>\<open>"Name"\<close> when that value is non-empty; it is the literal
  \<^verbatim>\<open>"(unnamed)"\<close> when there is no such tag and also when the value of the first such
  tag is empty (\<^verbatim>\<open>name or "(unnamed)"\<close>). The witness has the tags of the
  specification's example followed by a second \<^verbatim>\<open>Name\<close> tag.
\<close>

theorem instance_display_name:
  assumes "instance_ok instance"
  shows "\<exists>view. instance_body instance = Inr [view] \<and>
           field view ''name'' JNull =
             (case find is_name_tag (items instance ''Tags'') of
                None \<Rightarrow> JStr ''(unnamed)''
              | Some tag \<Rightarrow>
                  if py_truthy (field tag ''Value'' JNull) then field tag ''Value'' JNull
                  else JStr ''(unnamed)'')"
  using instance_body_ok [OF assms]
  by (simp add: py_or_def split: option.splits)

theorem instance_display_name_witness:
  "instance_ok instance_web \<and>
   instance_body instance_web =
     Inr [JObj [(''id'', JStr ''i-0abc''), (''name'', JStr ''web-1''), (''type'', JStr ''''),
                (''state'', JStr ''unknown''), (''public_ip'', JStr ''''),
                (''private_ip'', JStr ''''), (''key_name'', JStr '''')]]"
proof -
  have ok: "instance_ok instance_web"
    by (simp add: instance_ok_def instance_web_def tag_ok_def is_name_tag_def)
  from instance_display_name [OF ok] ok show ?thesis
    by (simp add: instance_body_ok instance_web_def items_def is_name_tag_def py_or_def)
qed

text \<open>
  C5 as stated fails in its "exactly when": this instance has a tag whose \<^verbatim>\<open>Key\<close> is
  \<^verbatim>\<open>"Name"\<close>, with the empty string for its value, and its display name is
  \<^verbatim>\<open>"(unnamed)"\<close>.
\<close>

theorem empty_name_tag_counterexample:
  "find is_name_tag (items instance_unnamed_tag ''Tags'')
     = Some (JObj [(''Key'', JStr ''Name''), (''Value'', JStr '''')]) \<and>
   instance_body instance_unnamed_tag =
     Inr [JObj [(''id'', JStr ''i-0abc''), (''name'', JStr ''(unnamed)''), (''type'', JStr ''''),
                (''state'', JStr ''unknown''), (''public_ip'', JStr ''''),
                (''private_ip'', JStr ''''), (''key_name'', JStr '''')]]"
  by (simp add: instance_unnamed_tag_def items_def is_name_tag_def instance_body_def py_or_def)

text \<open>
  C6. When the call succeeded and the groups are well formed, the result has, in the
  order of the reply, one view for each group whose \<^verbatim>\<open>GroupName\<close> is not exactly
  \<^verbatim>\<open>"default"\<close>, and none for a default group, whatever its rules are; the
  \<^verbatim>\<open>ingress_rules\<close> of a view are the summaries of the group's rules
  (\<^const>\<open>rule_summary\<close>). And whatever the reply is, no view that the collector
  returns is named \<^verbatim>\<open>default\<close>. The witness has a default group with a malformed
  rule list, the group \<^verbatim>\<open>web-sg\<close> of the specification with its summary
  \<^verbatim>\<open>"22 from 10.0.0.0/16"\<close>, a rule with two ranges and a rule without port and
  range.
\<close>

theorem security_groups_listed:
  "(run_aws_command rt ''ec2'' ''describe-security-groups'' None = Some data \<and>
    py_truthy data \<and> py_get data ''SecurityGroups'' (JList []) = Inr (JList sgs) \<and>
    list_all group_ok sgs
    \<longrightarrow> get_security_groups rt =
          Inr (map (\<lambda>sg.
            JObj [(''id'', field sg ''GroupId'' (JStr '''')),
                  (''name'', field sg ''GroupName'' (JStr '''')),
                  (''description'', field sg ''Description'' (JStr '''')),
                  (''ingress_rules'',
                     JList (map (\<lambda>rule. JStr (rule_summary (py_repr rt) rule))
                              (items sg ''IpPermissions'')))])
            (filter (\<lambda>sg. \<not> is_default sg) sgs))) \<and>
   (get_security_groups rt = Inr views
    \<longrightarrow> list_all (\<lambda>v. field v ''name'' JNull \<noteq> JStr ''default'') views)"
  using get_security_groups_ok [of rt data sgs] get_security_groups_no_default [of rt views]
  by (simp add: list_all_iff)

theorem security_groups_listed_witness:
  "list_all group_ok [
          JObj [(''GroupName'', JStr ''default''), (''IpPermissions'', JInt 7)],
          JObj [(''GroupName'', JStr ''web-sg''),
                (''IpPermissions'', JList [
                   JObj [(''FromPort'', JInt 22),
                         (''IpRanges'', JList [JObj [(''CidrIp'', JStr ''10.0.0.0/16'')]])]])],
          JObj [(''GroupName'', JStr ''db-sg''),
                (''IpPermissions'', JList [
                   JObj [(''FromPort'', JInt 5432),
                         (''IpRanges'', JList [JObj [(''CidrIp'', JStr ''10.1.0.0/16'')],
                                               JObj [(''CidrIp'', JStr ''10.2.0.0/16'')]])],
                   JObj [(''IpRanges'', JList [])]])]] \<and>
   get_security_groups rt_groups
     = Inr [JObj [(''id'', JStr ''''), (''name'', JStr ''web-sg''), (''description'', JStr ''''),
                  (''ingress_rules'', JList [JStr ''22 from 10.0.0.0/16''])],
            JObj [(''id'', JStr ''''), (''name'', JStr ''db-sg''), (''description'', JStr ''''),
                  (''ingress_rules'', JList [JStr ''5432 from 10.1.0.0/16'',
                                             JStr ''all from any''])]]"
  using security_groups_listed [where rt = rt_groups
      and data = "JObj [(''SecurityGroups'', JList [
          JObj [(''GroupName'', JStr ''default''), (''IpPermissions'', JInt 7)],
          JObj [(''GroupName'', JStr ''web-sg''),
                (''IpPermissions'', JList [
                   JObj [(''FromPort'', JInt 22),
                         (''IpRanges'', JList [JObj [(''CidrIp'', JStr ''10.0.0.0/16'')]])]])],
          JObj [(''GroupName'', JStr ''db-sg''),
                (''IpPermissions'', JList [
                   JObj [(''FromPort'', JInt 5432),
                         (''IpRanges'', JList [JObj [(''CidrIp'', JStr ''10.1.0.0/16'')],
                                               JObj [(''CidrIp'', JStr ''10.2.0.0/16'')]])],
                   JObj [(''IpRanges'', JList [])]])]])]"
      and sgs = "[
          JObj [(''GroupName'', JStr ''default''), (''IpPermissions'', JInt 7)],
          JObj [(''GroupName'', JStr ''web-sg''),
                (''IpPermissions'', JList [
                   JObj [(''FromPort'', JInt 22),
                         (''IpRanges'', JList [JObj [(''CidrIp'', JStr ''10.0.0.0/16'')]])]])],
          JObj [(''GroupName'', JStr ''db-sg''),
                (''IpPermissions'', JList [
                   JObj [(''FromPort'', JInt 5432),
                         (''IpRanges'', JList [JObj [(''CidrIp'', JStr ''10.1.0.0/16'')],
                                               JObj [(''CidrIp'', JStr ''10.2.0.0/16'')]])],
                   JObj [(''IpRanges'', JList [])]])]]"
      and views = "[JObj [(''id'', JStr ''''), (''name'', JStr ''web-sg''),
                          (''description'', JStr ''''),
                          (''ingress_rules'', JList [JStr ''22 from 10.0.0.0/16''])],
                    JObj [(''id'', JStr ''''), (''name'', JStr ''db-sg''),
                          (''description'', JStr ''''),
                          (''ingress_rules'', JList [JStr ''5432 from 10.1.0.0/16'',
                                                     JStr ''all from any''])]]"]
  by (simp add: groups_reply group_ok_def rule_ok_def is_default_def items_def rule_summary_def
      first_cidr_def str_int_22 str_int_5432)

text \<open>
  C7. When the call succeeded and the key pairs are well formed, the result has one view
  for each key pair, in order: its \<^verbatim>\<open>fingerprint\<close> is the first 40 characters of the
  raw fingerprint followed by \<^verbatim>\<open>"..."\<close>, and its \<^verbatim>\<open>type\<close> is the raw
  \<^verbatim>\<open>KeyType\<close>, or \<^verbatim>\<open>"rsa"\<close> when there is none.
\<close>

theorem key_pair_fingerprint_and_type:
  assumes "run_aws_command rt ''ec2'' ''describe-key-pairs'' None = Some data"
    and "py_truthy data"
    and "py_get data ''KeyPairs'' (JList []) = Inr (JList ks)"
    and "list_all key_ok ks"
  shows "get_key_pairs rt =
    Inr (map (\<lambda>key.
      JObj [(''name'', field key ''KeyName'' (JStr '''')),
            (''fingerprint'',
               JStr (take 40 (str_of (field key ''KeyFingerprint'' (JStr ''''))) @ ''...'')),
            (''type'', field key ''KeyType'' (JStr ''rsa''))]) ks)"
proof -
  have "for_each key_pair_body ks = Inr (map (\<lambda>key.
      JObj [(''name'', field key ''KeyName'' (JStr '''')),
            (''fingerprint'',
               JStr (take 40 (str_of (field key ''KeyFingerprint'' (JStr ''''))) @ ''...'')),
            (''type'', field key ''KeyType'' (JStr ''rsa''))]) ks)"
    using assms(4) by (intro for_each_map key_pair_body_ok) (simp add: list_all_iff)
  then show ?thesis
    using assms(1-3) by (simp add: get_key_pairs_def)
qed

theorem key_pair_fingerprint_and_type_witness:
  "run_aws_command rt_keys ''ec2'' ''describe-key-pairs'' None
     = Some (JObj [(''KeyPairs'', JList [
          JObj [(''KeyName'', JStr ''deploy''),
                (''KeyFingerprint'',
                 JStr ''1f:51:ae:28:bf:89:e9:d8:1f:25:5d:37:2d:7d:b8:ca:9f:f5:f1:6f'')],
          JObj [(''KeyName'', JStr ''ops''), (''KeyFingerprint'', JStr ''ab:cd''),
                (''KeyType'', JStr ''ed25519'')]])]) \<and>
   get_key_pairs rt_keys
     = Inr [JObj [(''name'', JStr ''deploy''),
                  (''fingerprint'', JStr ''1f:51:ae:28:bf:89:e9:d8:1f:25:5d:37:2d:7...''),
                  (''type'', JStr ''rsa'')],
            JObj [(''name'', JStr ''ops''), (''fingerprint'', JStr ''ab:cd...''),
                  (''type'', JStr ''ed25519'')]]"
  using key_pair_fingerprint_and_type [OF keys_reply]
  by (simp add: keys_reply key_ok_def)

text \<open>
  C10, as the code has it. The collector reads \<^verbatim>\<open>tag["Key"]\<close> and \<^verbatim>\<open>tag["Value"]\<close>
  by plain subscript, without a fallback, and it reads the tags of an instance up to and
  including the first one whose key is \<^verbatim>\<open>"Name"\<close> (\<^const>\<open>tags_read\<close>): the loop
  breaks there. For a successful \<^verbatim>\<open>describe-instances\<close> reply with a list of
  reservations: if \<^verbatim>\<open>get_instances\<close> returns, then every tag it reads, of every instance
  of every reservation, is an object with a \<^verbatim>\<open>Key\<close> (and with a \<^verbatim>\<open>Value\<close> when the
  key is \<^verbatim>\<open>"Name"\<close>); if some instance has tag objects of which one that is read
  violates this, and everything before that instance is well formed, it raises
  \<^verbatim>\<open>KeyError\<close>; and if every reservation is an object whose instances are objects with
  such tags and with a \<^verbatim>\<open>State\<close> that is absent or an object, it returns one view for
  each instance, the other fields of the instance read with their defaults. Nothing is
  said of tags after the first \<^verbatim>\<open>Name\<close> tag, which are never read, nor of the other
  collectors.
\<close>

theorem instance_tags_read_precondition:
  "(run_aws_command rt ''ec2'' ''describe-instances'' None = Some data \<and> py_truthy data \<and>
    py_get data ''Reservations'' (JList []) = Inr (JList rs) \<and>
    get_instances rt = Inr views \<and>
    reservation \<in> set rs \<and> inst \<in> set (items reservation ''Instances'')
    \<longrightarrow> list_all tag_ok (tags_read (items inst ''Tags''))) \<and>
   (run_aws_command rt ''ec2'' ''describe-instances'' None = Some data \<and> py_truthy data \<and>
    py_get data ''Reservations'' (JList []) = Inr (JList (rs_before @ reservation # rs_after)) \<and>
    list_all reservation_readable rs_before \<and>
    py_get reservation ''Instances'' (JList []) = Inr (JList (insts_before @ inst # insts_after)) \<and>
    list_all instance_readable insts_before \<and>
    py_get inst ''Tags'' (JList []) = Inr (JList tags) \<and>
    list_all is_obj tags \<and> \<not> list_all tag_ok (tags_read tags)
    \<longrightarrow> get_instances rt = Inl KeyError) \<and>
   (run_aws_command rt ''ec2'' ''describe-instances'' None = Some data \<and> py_truthy data \<and>
    py_get data ''Reservations'' (JList []) = Inr (JList rs) \<and>
    list_all reservation_readable rs
    \<longrightarrow> get_instances rt =
          Inr (concat (map (\<lambda>reservation. map (\<lambda>instance.
            JObj [(''id'', field instance ''InstanceId'' (JStr '''')),
                  (''name'',
                     py_or (case find is_name_tag (items instance ''Tags'') of
                              None \<Rightarrow> JStr ''''
                            | Some tag \<Rightarrow> field tag ''Value'' JNull) (JStr ''(unnamed)'')),
                  (''type'', field instance ''InstanceType'' (JStr '''')),
                  (''state'',
                     field (field instance ''State'' (JObj [])) ''Name'' (JStr ''unknown'')),
                  (''public_ip'', field instance ''PublicIpAddress'' (JStr '''')),
                  (''private_ip'', field instance ''PrivateIpAddress'' (JStr '''')),
                  (''key_name'', field instance ''KeyName'' (JStr ''''))])
            (items reservation ''Instances'')) rs)))"
  using get_instances_returns [of rt data rs views reservation inst]
    get_instances_key_error [of rt data rs_before reservation rs_after insts_before inst insts_after tags]
    get_instances_readable [of rt data rs]
  by blast

theorem instance_tags_read_precondition_witness:
  "list_all reservation_readable [JObj [(''Instances'', JList [
          JObj [(''InstanceId'', JStr ''i-0abc''),
                (''Tags'', JList [JObj [(''Key'', JStr ''Name''), (''Value'', JStr ''web-1'')],
                                  JObj [(''Value'', JStr ''x'')]])]])]] \<and>
   get_instances rt_trailing_keyless =
     Inr [JObj [(''id'', JStr ''i-0abc''), (''name'', JStr ''web-1''), (''type'', JStr ''''),
                (''state'', JStr ''unknown''), (''public_ip'', JStr ''''),
                (''private_ip'', JStr ''''), (''key_name'', JStr '''')]] \<and>
   list_all tag_ok (tags_read [JObj [(''Key'', JStr ''Name''), (''Value'', JStr ''web-1'')],
                               JObj [(''Value'', JStr ''x'')]]) \<and>
   list_all is_obj [JObj [(''Key'', JStr ''Env''), (''Value'', JStr ''prod'')],
                    JObj [(''Value'', JStr ''web-1'')]] \<and>
   \<not> list_all tag_ok (tags_read [JObj [(''Key'', JStr ''Env''), (''Value'', JStr ''prod'')],
                                 JObj [(''Value'', JStr ''web-1'')]]) \<and>
   get_instances rt_keyless_tag = Inl KeyError"
  using instance_tags_read_precondition [where rt = rt_trailing_keyless
      and data = "JObj [(''Reservations'', JList [JObj [(''Instances'', JList [
          JObj [(''InstanceId'', JStr ''i-0abc''),
                (''Tags'', JList [JObj [(''Key'', JStr ''Name''), (''Value'', JStr ''web-1'')],
                                  JObj [(''Value'', JStr ''x'')]])]])]])]"
      and rs = "[JObj [(''Instances'', JList [
          JObj [(''InstanceId'', JStr ''i-0abc''),
                (''Tags'', JList [JObj [(''Key'', JStr ''Name''), (''Value'', JStr ''web-1'')],
                                  JObj [(''Value'', JStr ''x'')]])]])]]"
      and views = "[JObj [(''id'', JStr ''i-0abc''), (''name'', JStr ''web-1''),
                (''type'', JStr ''''), (''state'', JStr ''unknown''), (''public_ip'', JStr ''''),
                (''private_ip'', JStr ''''), (''key_name'', JStr '''')]]"
      and reservation = "JObj [(''Instances'', JList [
          JObj [(''InstanceId'', JStr ''i-0abc''),
                (''Tags'', JList [JObj [(''Key'', JStr ''Name''), (''Value'', JStr ''web-1'')],
                                  JObj [(''Value'', JStr ''x'')]])]])]"
      and inst = "JObj [(''InstanceId'', JStr ''i-0abc''),
                (''Tags'', JList [JObj [(''Key'', JStr ''Name''), (''Value'', JStr ''web-1'')],
                                  JObj [(''Value'', JStr ''x'')]])]"]
    instance_tags_read_precondition [where rt = rt_keyless_tag
      and data = "JObj [(''Reservations'', JList [JObj [(''Instances'', JList [
          JObj [(''InstanceId'', JStr ''i-0abc''),
                (''Tags'', JList [JObj [(''Key'', JStr ''Env''), (''Value'', JStr ''prod'')],
                                  JObj [(''Value'', JStr ''web-1'')]])]])]])]"
      and rs_before = "[]"
      and reservation = "JObj [(''Instances'', JList [
          JObj [(''InstanceId'', JStr ''i-0abc''),
                (''Tags'', JList [JObj [(''Key'', JStr ''Env''), (''Value'', JStr ''prod'')],
                                  JObj [(''Value'', JStr ''web-1'')]])]])]"
      and rs_after = "[]"
      and insts_before = "[]"
      and inst = "JObj [(''InstanceId'', JStr ''i-0abc''),
                (''Tags'', JList [JObj [(''Key'', JStr ''Env''), (''Value'', JStr ''prod'')],
                                  JObj [(''Value'', JStr ''web-1'')]])]"
      and insts_after = "[]"
      and tags = "[JObj [(''Key'', JStr ''Env''), (''Value'', JStr ''prod'')],
                   JObj [(''Value'', JStr ''web-1'')]]"]
  by (simp add: trailing_keyless_reply keyless_tag_reply trailing_keyless_outcome
      reservation_readable_def instance_readable_def tag_ok_def is_name_tag_def items_def)

text \<open>
  C10 as stated fails twice. The precondition on every tag is not needed: this reply has
  a tag object without a \<^verbatim>\<open>Key\<close> after the \<^verbatim>\<open>Name\<close> tag, and \<^verbatim>\<open>get_instances\<close>
  returns. And the tags are not the only fields read without a default: in the
  security-group collector \<^verbatim>\<open>rule.get("IpRanges", [{}])[0]\<close> raises \<^verbatim>\<open>KeyError\<close>
  when \<^verbatim>\<open>IpRanges\<close> is an object.
\<close>

theorem unread_keyless_tag_counterexample:
  "run_aws_command rt_trailing_keyless ''ec2'' ''describe-instances'' None
     = Some (JObj [(''Reservations'', JList [JObj [(''Instances'', JList [
          JObj [(''InstanceId'', JStr ''i-0abc''),
                (''Tags'', JList [JObj [(''Key'', JStr ''Name''), (''Value'', JStr ''web-1'')],
                                  JObj [(''Value'', JStr ''x'')]])]])]])]) \<and>
   \<not> has_field (JObj [(''Value'', JStr ''x'')]) ''Key'' \<and>
   get_instances rt_trailing_keyless =
     Inr [JObj [(''id'', JStr ''i-0abc''), (''name'', JStr ''web-1''), (''type'', JStr ''''),
                (''state'', JStr ''unknown''), (''public_ip'', JStr ''''),
                (''private_ip'', JStr ''''), (''key_name'', JStr '''')]] \<and>
   run_aws_command rt_ranges_object ''ec2'' ''describe-security-groups'' None
     = Some (JObj [(''SecurityGroups'', JList [
          JObj [(''GroupName'', JStr ''web-sg''),
                (''IpPermissions'', JList [
                   JObj [(''FromPort'', JInt 22),
                         (''IpRanges'', JObj [(''CidrIp'', JStr ''10.0.0.0/16'')])]])]])]) \<and>
   get_security_groups rt_ranges_object = Inl KeyError"
  by (simp add: trailing_keyless_reply trailing_keyless_outcome ranges_object_reply
      get_security_groups_def security_group_body_def ingress_rule_body_def)

section \<open>Properties of the renderer\<close>

text \<open>
  C8, as the code has it. When at least one of the three lists is not empty (and the
  first views have strings for names), the diagram shows, each left-justified in its
  field of 30, 25 and 20 characters: the first bucket's name cut to 30 characters, the
  first table's name cut to 25, and \<^verbatim>\<open>"EC2: "\<close> followed by the first instance's name
  cut to 20; each of the three that is empty shows its placeholder instead. When all
  three lists are empty the block appends nothing: there is no diagram and no
  placeholder.
\<close>

theorem architecture_diagram_values:
  "((s3_buckets \<noteq> [] \<or> dynamodb_tables \<noteq> [] \<or> instances \<noteq> []) \<and>
    first_named s3_buckets \<and> first_named dynamodb_tables \<and> first_named instances
    \<longrightarrow> architecture_diagram repr s3_buckets dynamodb_tables instances =
          Inr (architecture_text
                 (ljust 30 (if s3_buckets = [] then ''terraform-state-bucket''
                            else take 30 (first_name s3_buckets)))
                 (ljust 25 (if dynamodb_tables = [] then ''terraform-locks''
                            else take 25 (first_name dynamodb_tables)))
                 (ljust 20 (if instances = [] then ''EC2: (not created yet)''
                            else ''EC2: '' @ take 20 (first_name instances))))) \<and>
   architecture_diagram repr [] [] [] = Inr []"
proof (intro conjI impI)
  assume h: "(s3_buckets \<noteq> [] \<or> dynamodb_tables \<noteq> [] \<or> instances \<noteq> []) \<and>
    first_named s3_buckets \<and> first_named dynamodb_tables \<and> first_named instances"
  have b: "(case s3_buckets of
              [] \<Rightarrow> Inr (JStr ''terraform-state-bucket'')
            | bucket # _ \<Rightarrow> and_then (py_subscript bucket ''name'') (py_slice_to 30))
           = Inr (JStr (if s3_buckets = [] then ''terraform-state-bucket''
                        else take 30 (first_name s3_buckets)))"
    using h by (cases s3_buckets) (auto simp: first_view_name)
  have t: "(case dynamodb_tables of
              [] \<Rightarrow> Inr (JStr ''terraform-locks'')
            | table # _ \<Rightarrow> and_then (py_subscript table ''name'') (py_slice_to 25))
           = Inr (JStr (if dynamodb_tables = [] then ''terraform-locks''
                        else take 25 (first_name dynamodb_tables)))"
    using h by (cases dynamodb_tables) (auto simp: first_view_name)
  have i: "(case instances of
              [] \<Rightarrow> Inr (JStr ''EC2: (not created yet)'')
            | instance # _ \<Rightarrow>
                and_then (py_subscript instance ''name'') (\<lambda>name.
                and_then (py_slice_to 20 name) (\<lambda>cut.
                Inr (JStr (''EC2: '' @ py_str repr cut)))))
           = Inr (JStr (if instances = [] then ''EC2: (not created yet)''
                        else ''EC2: '' @ take 20 (first_name instances)))"
    using h by (cases instances) (auto simp: first_view_name)
  show "architecture_diagram repr s3_buckets dynamodb_tables instances =
          Inr (architecture_text
                 (ljust 30 (if s3_buckets = [] then ''terraform-state-bucket''
                            else take 30 (first_name s3_buckets)))
                 (ljust 25 (if dynamodb_tables = [] then ''terraform-locks''
                            else take 25 (first_name dynamodb_tables)))
                 (ljust 20 (if instances = [] then ''EC2: (not created yet)''
                            else ''EC2: '' @ take 20 (first_name instances))))"
    unfolding architecture_diagram_def b t i using h by simp
next
  show "architecture_diagram repr [] [] [] = Inr []"
    by (simp add: architecture_diagram_def)
qed

theorem architecture_diagram_values_witness:
  "first_named [JObj [(''name'', JStr ''terraform-remote-state-bucket-eu-central-1'')]] \<and>
   first_named [JObj [(''name'', JStr ''web-1'')]] \<and>
   architecture_diagram repr_demo
     [JObj [(''name'', JStr ''terraform-remote-state-bucket-eu-central-1'')]]
     []
     [JObj [(''name'', JStr ''web-1'')]]
   = Inr (architecture_text ''terraform-remote-state-bucket-''
                            ''terraform-locks          ''
                            ''EC2: web-1          '')"
  using architecture_diagram_values [where repr = repr_demo
      and s3_buckets = "[JObj [(''name'', JStr ''terraform-remote-state-bucket-eu-central-1'')]]"
      and dynamodb_tables = "[]"
      and instances = "[JObj [(''name'', JStr ''web-1'')]]"]
  by (simp add: first_named_def first_name_def ljust_def eval_nat_numeral)

text \<open>
  C8 as stated fails on the empty snapshot: every category is empty, and the text
  appended for the diagram is empty, so no placeholder is shown.
\<close>

theorem empty_snapshot_no_diagram_counterexample:
  "architecture_diagram repr_demo [] [] [] = Inr []"
  by (simp add: architecture_diagram_def)

text \<open>
  The empty snapshot. Each of the six sections appends its own literal message and no
  card, and the six messages are pairwise different.
\<close>

lemma empty_snapshot_sections:
  \<open>s3_section repr [] = Inr ''<div class="empty-state">No S3 buckets found. Run terraform apply in the backend/ folder!</div>''\<close>
  \<open>dynamodb_section repr [] = Inr ''<div class="empty-state">No DynamoDB tables found. Run terraform apply in the backend/ folder!</div>''\<close>
  \<open>iam_section repr [] = Inr ''<div class="empty-state">No IAM users found. Run terraform apply in the iam/ folder!</div>''\<close>
  \<open>keypair_section repr [] = Inr ''<div class="empty-state">No SSH key pairs found. Run terraform apply in the compute/ folder!</div>''\<close>
  \<open>ec2_section repr [] = Inr ''<div class="empty-state">No EC2 instances found. Run terraform apply in the compute/ folder!</div>''\<close>
  \<open>sg_section repr [] = Inr ''<div class="empty-state">No security groups found (besides default)</div>''\<close>
  by (simp_all add: s3_section_def dynamodb_section_def iam_section_def keypair_section_def
      ec2_section_def sg_section_def)

lemma empty_state_messages_distinct:
  \<open>distinct [
     ''<div class="empty-state">No S3 buckets found. Run terraform apply in the backend/ folder!</div>'',
     ''<div class="empty-state">No DynamoDB tables found. Run terraform apply in the backend/ folder!</div>'',
     ''<div class="empty-state">No IAM users found. Run terraform apply in the iam/ folder!</div>'',
     ''<div class="empty-state">No SSH key pairs found. Run terraform apply in the compute/ folder!</div>'',
     ''<div class="empty-state">No EC2 instances found. Run terraform apply in the compute/ folder!</div>'',
     ''<div class="empty-state">No security groups found (besides default)</div>'']\<close>
  by simp

end
